theory Spec2Isabelle
  imports Complex_Main "HOL-Library.Word"
begin

unbundle bit_operations_syntax

section \<open>JavaScript numbers\<close>

text \<open>
  The program computes with IEEE doubles. The model computes with exact reals and adds the
  three special values the code tests for (\<open>isFinite\<close>, \<open>isNaN\<close>, comparisons that are
  false on NaN, division by zero). Rounding to 64 or 32 bits and the sign of zero are
  outside the model, with one exception: the constant 0.3 that the analyzer stores in a
  \<open>Float32Array\<close> is read back as the nearest 32-bit float (\<open>float32_0_3\<close> below), because
  the planner compares it with the double 0.3.
\<close>

datatype jsnum = Fin real | PInf | NInf | NaN

fun isFinite :: "jsnum \<Rightarrow> bool" where
  "isFinite (Fin x) = True"
| "isFinite PInf = False"
| "isFinite NInf = False"
| "isFinite NaN = False"

text \<open>Only read where \<open>isFinite\<close> has been established.\<close>

fun fin_val :: "jsnum \<Rightarrow> real" where
  "fin_val (Fin x) = x"
| "fin_val PInf = 0"
| "fin_val NInf = 0"
| "fin_val NaN = 0"

fun js_less :: "jsnum \<Rightarrow> jsnum \<Rightarrow> bool" where
  "js_less (Fin x) (Fin y) = (x < y)"
| "js_less NaN b = False"
| "js_less a NaN = False"
| "js_less PInf b = False"
| "js_less a NInf = False"
| "js_less NInf b = True"
| "js_less a PInf = True"

fun js_le :: "jsnum \<Rightarrow> jsnum \<Rightarrow> bool" where
  "js_le (Fin x) (Fin y) = (x \<le> y)"
| "js_le NaN b = False"
| "js_le a NaN = False"
| "js_le NInf b = True"
| "js_le a PInf = True"
| "js_le PInf b = False"
| "js_le a NInf = False"

definition js_greater :: "jsnum \<Rightarrow> jsnum \<Rightarrow> bool" where
  "js_greater a b = js_less b a"

fun js_add :: "jsnum \<Rightarrow> jsnum \<Rightarrow> jsnum" where
  "js_add (Fin x) (Fin y) = Fin (x + y)"
| "js_add NaN b = NaN"
| "js_add a NaN = NaN"
| "js_add PInf NInf = NaN"
| "js_add NInf PInf = NaN"
| "js_add PInf b = PInf"
| "js_add a PInf = PInf"
| "js_add NInf b = NInf"
| "js_add a NInf = NInf"

definition inf_of_sign :: "bool \<Rightarrow> jsnum" where
  "inf_of_sign positive = (if positive then PInf else NInf)"

fun js_mul :: "jsnum \<Rightarrow> jsnum \<Rightarrow> jsnum" where
  "js_mul (Fin x) (Fin y) = Fin (x * y)"
| "js_mul NaN b = NaN"
| "js_mul a NaN = NaN"
| "js_mul PInf (Fin y) = (if y = 0 then NaN else inf_of_sign (0 < y))"
| "js_mul NInf (Fin y) = (if y = 0 then NaN else inf_of_sign (y < 0))"
| "js_mul (Fin x) PInf = (if x = 0 then NaN else inf_of_sign (0 < x))"
| "js_mul (Fin x) NInf = (if x = 0 then NaN else inf_of_sign (x < 0))"
| "js_mul PInf PInf = PInf"
| "js_mul NInf NInf = PInf"
| "js_mul PInf NInf = NInf"
| "js_mul NInf PInf = NInf"

text \<open>Division: a zero divisor is read as \<open>+0\<close>.\<close>

fun js_divide :: "jsnum \<Rightarrow> jsnum \<Rightarrow> jsnum" where
  "js_divide (Fin x) (Fin y) =
     (if y \<noteq> 0 then Fin (x / y) else if x = 0 then NaN else inf_of_sign (0 < x))"
| "js_divide NaN b = NaN"
| "js_divide a NaN = NaN"
| "js_divide (Fin x) PInf = Fin 0"
| "js_divide (Fin x) NInf = Fin 0"
| "js_divide PInf (Fin y) = inf_of_sign (0 \<le> y)"
| "js_divide NInf (Fin y) = inf_of_sign (y < 0)"
| "js_divide PInf PInf = NaN"
| "js_divide PInf NInf = NaN"
| "js_divide NInf PInf = NaN"
| "js_divide NInf NInf = NaN"

fun js_abs :: "jsnum \<Rightarrow> jsnum" where
  "js_abs (Fin x) = Fin \<bar>x\<bar>"
| "js_abs PInf = PInf"
| "js_abs NInf = PInf"
| "js_abs NaN = NaN"

text \<open>\<open>Math.max\<close> and \<open>Math.min\<close> of two numbers: NaN when either is NaN.\<close>

fun js_max :: "jsnum \<Rightarrow> jsnum \<Rightarrow> jsnum" where
  "js_max (Fin x) (Fin y) = Fin (max x y)"
| "js_max NaN b = NaN"
| "js_max a NaN = NaN"
| "js_max PInf b = PInf"
| "js_max a PInf = PInf"
| "js_max NInf b = b"
| "js_max a NInf = a"

fun js_min :: "jsnum \<Rightarrow> jsnum \<Rightarrow> jsnum" where
  "js_min (Fin x) (Fin y) = Fin (min x y)"
| "js_min NaN b = NaN"
| "js_min a NaN = NaN"
| "js_min NInf b = NInf"
| "js_min a NInf = NInf"
| "js_min PInf b = b"
| "js_min a PInf = a"

fun js_floor :: "jsnum \<Rightarrow> jsnum" where
  "js_floor (Fin x) = Fin (of_int \<lfloor>x\<rfloor>)"
| "js_floor PInf = PInf"
| "js_floor NInf = NInf"
| "js_floor NaN = NaN"

fun js_tanh :: "jsnum \<Rightarrow> jsnum" where
  "js_tanh (Fin x) = Fin (tanh x)"
| "js_tanh PInf = Fin 1"
| "js_tanh NInf = Fin (- 1)"
| "js_tanh NaN = NaN"


datatype js_error = Error string | TypeError string | RangeError string

section \<open>Analysis summary and transition plan (data model)\<close>

record AnalysisSummary =
  bpm :: real
  bpmAlt :: real
  bpmConfidence :: real
  camelot :: string
  keySemitone :: int
  keyConfidence :: real
  beatTimes :: "real list"
  downbeatIndices :: "nat list"
  phraseSpans :: "(nat \<times> nat) list"
  energyCurve :: "real list"
  vocalLikelihood :: "real list"
  kickTimes :: "real list"

datatype TransitionStyle = hard_downbeat | eq_morph | bass_swap | vocal_aware | stutter_entry

datatype MixMode = festival | club_smooth | neutral

datatype Track = TrackA | TrackB

datatype FxType = sweep | reverseVerb | tapeStop | stutter

record FxSpec =
  fx_type :: FxType
  atBeat :: jsnum
  params :: "(string \<times> jsnum) list"

record TransitionPlan =
  style :: TransitionStyle
  startBarA :: jsnum
  startBarB :: jsnum
  lengthBars :: nat
  tempoOps :: "(Track \<times> jsnum) list"
  pitchOps :: "(Track \<times> int \<times> bool) list"
  fx :: "FxSpec list"

section \<open>Transition planner\<close>

definition CAMELOT_WHEEL :: "(string \<times> string list) list" where
  "CAMELOT_WHEEL =
    [(''1A'', [''1A'', ''12A'', ''2A'', ''1B'']),
     (''2A'', [''2A'', ''1A'', ''3A'', ''2B'']),
     (''3A'', [''3A'', ''2A'', ''4A'', ''3B'']),
     (''4A'', [''4A'', ''3A'', ''5A'', ''4B'']),
     (''5A'', [''5A'', ''4A'', ''6A'', ''5B'']),
     (''6A'', [''6A'', ''5A'', ''7A'', ''6B'']),
     (''7A'', [''7A'', ''6A'', ''8A'', ''7B'']),
     (''8A'', [''8A'', ''7A'', ''9A'', ''8B'']),
     (''9A'', [''9A'', ''8A'', ''10A'', ''9B'']),
     (''10A'', [''10A'', ''9A'', ''11A'', ''10B'']),
     (''11A'', [''11A'', ''10A'', ''12A'', ''11B'']),
     (''12A'', [''12A'', ''11A'', ''1A'', ''12B'']),
     (''1B'', [''1B'', ''12B'', ''2B'', ''1A'']),
     (''2B'', [''2B'', ''1B'', ''3B'', ''2A'']),
     (''3B'', [''3B'', ''2B'', ''4B'', ''3A'']),
     (''4B'', [''4B'', ''3B'', ''5B'', ''4A'']),
     (''5B'', [''5B'', ''4B'', ''6B'', ''5A'']),
     (''6B'', [''6B'', ''5B'', ''7B'', ''6A'']),
     (''7B'', [''7B'', ''6B'', ''8B'', ''7A'']),
     (''8B'', [''8B'', ''7B'', ''9B'', ''8A'']),
     (''9B'', [''9B'', ''8B'', ''10B'', ''9A'']),
     (''10B'', [''10B'', ''9B'', ''11B'', ''10A'']),
     (''11B'', [''11B'', ''10B'', ''12B'', ''11A'']),
     (''12B'', [''12B'', ''11B'', ''1B'', ''12A''])]"

text \<open>
  \<open>CAMELOT_WHEEL\<close> is an object literal: a key it does not hold itself is looked up on
  \<open>Object.prototype\<close>, whose members are truthy and have no \<open>includes\<close>, so the call
  throws a TypeError.
\<close>

definition object_prototype_keys :: "string list" where
  "object_prototype_keys =
    [''constructor'', ''hasOwnProperty'', ''isPrototypeOf'', ''propertyIsEnumerable'',
     ''toLocaleString'', ''toString'', ''valueOf'', ''__proto__'', ''__defineGetter__'',
     ''__defineSetter__'', ''__lookupGetter__'', ''__lookupSetter__'']"

definition areKeysCompatible :: "string \<Rightarrow> string \<Rightarrow> js_error + bool" where
  "areKeysCompatible keyA keyB =
     (case map_of CAMELOT_WHEEL keyA of
        Some compatibleKeys \<Rightarrow> Inr (keyB \<in> set compatibleKeys)
      | None \<Rightarrow>
          if keyA \<in> set object_prototype_keys
          then Inl (TypeError ''compatibleKeys.includes is not a function'')
          else Inr False)"

text \<open>
  \<open>parseInt\<close> without a radix: leading white space, an optional sign, then decimal digits
  (hexadecimal after \<open>0x\<close>); \<open>None\<close> is NaN.
\<close>

definition is_space :: "char \<Rightarrow> bool" where
  "is_space c = (c \<in> set [CHR '' '', CHR 0x09, CHR 0x0A, CHR 0x0B, CHR 0x0C, CHR 0x0D])"

definition digit_of :: "nat \<Rightarrow> char \<Rightarrow> nat option" where
  "digit_of radix c =
     (let n = (of_char c :: nat);
          d = (if 48 \<le> n \<and> n \<le> 57 then Some (n - 48)
               else if 97 \<le> n \<and> n \<le> 122 then Some (n - 87)
               else if 65 \<le> n \<and> n \<le> 90 then Some (n - 55)
               else None)
      in case d of Some v \<Rightarrow> (if v < radix then Some v else None) | None \<Rightarrow> None)"

fun parse_digits :: "nat \<Rightarrow> string \<Rightarrow> nat option \<Rightarrow> nat option" where
  "parse_digits radix [] acc = acc"
| "parse_digits radix (c # cs) acc =
     (case digit_of radix c of
        None \<Rightarrow> acc
      | Some v \<Rightarrow> parse_digits radix cs (Some ((case acc of None \<Rightarrow> 0 | Some a \<Rightarrow> a) * radix + v)))"

definition parse_unsigned :: "string \<Rightarrow> nat option" where
  "parse_unsigned s =
     (case s of
        c0 # cx # rest \<Rightarrow>
          if c0 = CHR ''0'' \<and> (cx = CHR ''x'' \<or> cx = CHR ''X'')
          then parse_digits 16 rest None
          else parse_digits 10 s None
      | _ \<Rightarrow> parse_digits 10 s None)"

definition parseInt :: "string \<Rightarrow> int option" where
  "parseInt s =
     (let t = dropWhile is_space s in
      case t of
        [] \<Rightarrow> None
      | c # cs \<Rightarrow>
          if c = CHR ''-'' then map_option (\<lambda>n. - int n) (parse_unsigned cs)
          else if c = CHR ''+'' then map_option int (parse_unsigned cs)
          else map_option int (parse_unsigned t))"

definition calculateKeyShift :: "string \<Rightarrow> string \<Rightarrow> int option" where
  "calculateKeyShift keyA keyB =
     (case (parseInt keyA, parseInt keyB) of
        (Some numberA, Some numberB) \<Rightarrow>
          (let shift = numberB - numberA in
           if shift > 6 then Some (shift - 12)
           else if shift < - 6 then Some (shift + 12)
           else Some shift)
      | _ \<Rightarrow> None)"

definition tempoDelta :: "AnalysisSummary \<Rightarrow> AnalysisSummary \<Rightarrow> jsnum" where
  "tempoDelta analysisA analysisB =
     js_divide (Fin \<bar>bpm analysisA - bpm analysisB\<bar>) (Fin (bpm analysisA))"

definition avgVocal :: "AnalysisSummary \<Rightarrow> jsnum" where
  "avgVocal a =
     js_divide (Fin (foldl (+) 0 (vocalLikelihood a))) (Fin (real (length (vocalLikelihood a))))"

definition bothVocal :: "AnalysisSummary \<Rightarrow> AnalysisSummary \<Rightarrow> bool" where
  "bothVocal analysisA analysisB =
     (js_greater (avgVocal analysisA) (Fin 0.3) \<and> js_greater (avgVocal analysisB) (Fin 0.3))"

text \<open>\<open>energyCurve[length - 1] || 0\<close> and \<open>energyCurve[0] || 0\<close>.\<close>

definition energyA_of :: "AnalysisSummary \<Rightarrow> real" where
  "energyA_of a = (if energyCurve a = [] then 0 else last (energyCurve a))"

definition energyB_of :: "AnalysisSummary \<Rightarrow> real" where
  "energyB_of b = (if energyCurve b = [] then 0 else hd (energyCurve b))"

text \<open>The number of bars of track A, as the planner counts them.\<close>

definition totalBarsA_of :: "AnalysisSummary \<Rightarrow> nat" where
  "totalBarsA_of analysisA = max 1 (length (downbeatIndices analysisA) div 4)"

definition createTransitionPlan ::
  "AnalysisSummary \<Rightarrow> AnalysisSummary \<Rightarrow> MixMode \<Rightarrow> js_error + TransitionPlan" where
  "createTransitionPlan analysisA analysisB mode =
     (case areKeysCompatible (camelot analysisA) (camelot analysisB) of
        Inl e \<Rightarrow> Inl e
      | Inr keysCompatible \<Rightarrow>
     (let td = tempoDelta analysisA analysisB;
          bv = bothVocal analysisA analysisB;
          energyA = energyA_of analysisA;
          energyB = energyB_of analysisB;
          energyMismatch = (\<bar>energyA - energyB\<bar> > 0.3);
          (style0, lengthBars0, fx0) =
            (if bv then (vocal_aware, 4, [])
             else if \<not> keysCompatible \<and> js_greater td (Fin 0.06)
               then (hard_downbeat, 4,
                     [\<lparr>fx_type = sweep, atBeat = Fin (- 2), params = [(''duration'', Fin 1)]\<rparr>])
             else if keysCompatible \<and> js_less td (Fin 0.02)
               then (eq_morph, if mode = club_smooth then 16 else 8, [])
             else if js_less td (Fin 0.06) then (bass_swap, 8, [])
             else (if mode = festival then stutter_entry else hard_downbeat, 4,
                   if mode = festival
                   then [\<lparr>fx_type = stutter, atBeat = Fin (- 4),
                          params = [(''division'', Fin 8), (''bars'', Fin 1)]\<rparr>]
                   else []));
          fx1 = (if energyMismatch \<and> energyB > energyA \<and> mode = festival
                 then fx0 @ [\<lparr>fx_type = reverseVerb, atBeat = Fin (- 4),
                              params = [(''duration'', Fin 2)]\<rparr>]
                 else fx0);
          tempoOps0 =
            (if js_greater td (Fin 0.02) \<and> js_le td (Fin 0.06)
             then (let targetBPM = (bpm analysisA + bpm analysisB) / 2 in
                   [(TrackA, js_mul (js_divide (Fin (targetBPM - bpm analysisA)) (Fin (bpm analysisA))) (Fin 100)),
                    (TrackB, js_mul (js_divide (Fin (targetBPM - bpm analysisB)) (Fin (bpm analysisB))) (Fin 100))])
             else []);
          pitchOps0 =
            (if \<not> keysCompatible
             then (case calculateKeyShift (camelot analysisA) (camelot analysisB) of
                     None \<Rightarrow> []
                   | Some semitoneShift \<Rightarrow>
                       if \<bar>semitoneShift\<bar> \<le> 1 then [(TrackB, semitoneShift, True)] else [])
             else []);
          totalBarsA = totalBarsA_of analysisA;
          startBarA0 = max 0 \<lfloor>real totalBarsA * 0.75\<rfloor>
      in Inr \<lparr>style = style0, startBarA = Fin (of_int startBarA0), startBarB = Fin 0,
              lengthBars = lengthBars0,
              tempoOps = tempoOps0, pitchOps = pitchOps0, fx = fx1\<rparr>))"

section \<open>Audio buffers\<close>

text \<open>
  An \<open>AudioBuffer\<close>: a sample rate and one sample array per channel. Its \<open>length\<close> is the
  length of every channel (\<open>wf_buffer\<close>); a sample is a JavaScript number. The parameter
  type \<open>AudioBuffer\<close> has no null, so the tests \<open>!buffer\<close> and \<open>!data\<close> of the source
  have no branch here.
\<close>

record AudioBuffer =
  sampleRate :: real
  channelData :: "jsnum list list"

definition numberOfChannels :: "AudioBuffer \<Rightarrow> nat" where
  "numberOfChannels b = length (channelData b)"

definition buffer_length :: "AudioBuffer \<Rightarrow> nat" where
  "buffer_length b = (case channelData b of [] \<Rightarrow> 0 | c # _ \<Rightarrow> length c)"


definition getChannelData :: "AudioBuffer \<Rightarrow> nat \<Rightarrow> js_error + jsnum list" where
  "getChannelData b ch =
     (if ch < numberOfChannels b then Inr (channelData b ! ch)
      else Inl (Error ''IndexSizeError''))"

text \<open>\<open>xs.slice(s, e)\<close> for indices that are not negative.\<close>

definition array_slice :: "nat \<Rightarrow> nat \<Rightarrow> 'a list \<Rightarrow> 'a list" where
  "array_slice s e xs = drop s (take e xs)"

section \<open>Track analyzer\<close>

definition KEY_TO_CAMELOT :: "(int \<times> string) list" where
  "KEY_TO_CAMELOT =
    [(0, ''8B''), (1, ''3B''), (2, ''10B''), (3, ''5B''), (4, ''12B''), (5, ''7B''),
     (6, ''2B''), (7, ''9B''), (8, ''4B''), (9, ''11B''), (10, ''6B''), (11, ''1B''),
     (12, ''5A''), (13, ''12A''), (14, ''7A''), (15, ''2A''), (16, ''9A''), (17, ''4A''),
     (18, ''11A''), (19, ''6A''), (20, ''1A''), (21, ''8A''), (22, ''3A''), (23, ''10A'')]"

subsection \<open>Magnitude spectrum\<close>

text \<open>A sample that is not finite is skipped by both sums.\<close>

definition fft_re :: "jsnum list \<Rightarrow> nat \<Rightarrow> real" where
  "fft_re data k =
     (\<Sum>i\<leftarrow>[0..<length data].
        (case data ! i of
           Fin x \<Rightarrow> x * cos (2 * pi * real k * real i / real (length data))
         | _ \<Rightarrow> 0))"

definition fft_im :: "jsnum list \<Rightarrow> nat \<Rightarrow> real" where
  "fft_im data k =
     - (\<Sum>i\<leftarrow>[0..<length data].
        (case data ! i of
           Fin x \<Rightarrow> x * sin (2 * pi * real k * real i / real (length data))
         | _ \<Rightarrow> 0))"

definition fft :: "jsnum list \<Rightarrow> real list" where
  "fft data =
     (if data = [] then replicate 1024 0
      else map (\<lambda>k. if 2 * k < length data
                     then sqrt (fft_re data k * fft_re data k + fft_im data k * fft_im data k)
                     else 0)
             [0..<length data])"

definition isLocalPeak :: "real list \<Rightarrow> nat \<Rightarrow> nat \<Rightarrow> bool" where
  "isLocalPeak data index radius =
     list_all (\<lambda>i. \<not> (i \<noteq> int index \<and> 0 \<le> i \<and> i < int (length data) \<and> data ! nat i \<ge> data ! index))
       [int index - int radius .. int index + int radius]"

subsection \<open>Beats\<close>

definition default_beats :: "real list" where
  "default_beats = [0, 0.5, 1.0, 1.5]"

definition flux_of :: "real list \<Rightarrow> real list \<Rightarrow> real" where
  "flux_of spectrum prevSpectrum =
     (\<Sum>j\<leftarrow>[0..<min (length spectrum) (length prevSpectrum)].
        (max 0 (spectrum ! j - prevSpectrum ! j)) * (max 0 (spectrum ! j - prevSpectrum ! j)))"

function spectralFlux_loop ::
  "jsnum list \<Rightarrow> nat \<Rightarrow> real list option \<Rightarrow> real list \<Rightarrow> real list" where
  "spectralFlux_loop data i prevSpectrum spectralFlux =
     (if int i < int (length data) - 2048 then
        (let window = array_slice i (i + 2048) data in
         if length window < 2048 then spectralFlux
         else
           (let spectrum = fft window in
            if spectrum = [] then spectralFlux_loop data (i + 512) prevSpectrum spectralFlux
            else
              spectralFlux_loop data (i + 512) (Some spectrum)
                (case prevSpectrum of
                   None \<Rightarrow> spectralFlux
                 | Some prev \<Rightarrow>
                     (let flux = flux_of spectrum prev in
                      if flux > 0 then spectralFlux @ [sqrt flux] else spectralFlux))))
      else spectralFlux)"
  by pat_completeness auto
termination
  by (relation "measure (\<lambda>(data, i, prevSpectrum, spectralFlux). length data - i)") auto

declare spectralFlux_loop.simps [simp del]

definition pick_peaks :: "real list \<Rightarrow> nat \<Rightarrow> real \<Rightarrow> real list" where
  "pick_peaks spectralFlux windowLen sr =
     concat (map (\<lambda>i.
       (let window = array_slice (i - windowLen) (i + windowLen) spectralFlux in
        if window = [] then []
        else
          (let mean = foldl (+) 0 window / real (length window) in
           if mean \<le> 0 then []
           else
             (let threshold = mean * 1.5 in
              if spectralFlux ! i > threshold \<and> isLocalPeak spectralFlux i 3
              then (let timeSeconds = real (i * 512) / sr in
                    if timeSeconds \<ge> 0 then [timeSeconds] else [])
              else []))))
       [windowLen ..< length spectralFlux - windowLen])"

definition detectBeats :: "jsnum list \<Rightarrow> real \<Rightarrow> real list" where
  "detectBeats data sr =
     (if length data < 2048 \<or> sr \<le> 0 then default_beats
      else
        (let spectralFlux = spectralFlux_loop data 0 None [] in
         if length spectralFlux < 2 then default_beats
         else
           (let windowLen = max 1 (nat \<lfloor>sr / 512\<rfloor>);
                beats = pick_peaks spectralFlux windowLen sr
            in if beats = [] then default_beats else beats)))"

subsection \<open>Tempo\<close>

text \<open>
  The histogram is an object keyed by integers: \<open>Object.entries\<close> lists its keys in
  ascending order, and the sort by descending count is stable. The key of the first entry
  is the decimal string of its bin, which \<open>parseInt\<close> reads back as the bin.
\<close>

definition bpm_histogram :: "real list \<Rightarrow> (int \<times> nat) list" where
  "bpm_histogram intervals =
     (let votes = filter (\<lambda>b. 0 < b \<and> b < 300) (map (\<lambda>interval. round (60 / interval)) intervals)
      in map (\<lambda>k. (k, count_list votes k)) (sort (remdups votes)))"

definition calculateBPM :: "real list \<Rightarrow> real \<times> real \<times> real" where
  "calculateBPM beats =
     (if length beats < 2 then (120, 60, 0)
      else
        (let intervals = filter (\<lambda>interval. interval > 0)
               (map (\<lambda>i. beats ! i - beats ! (i - 1)) [1..<length beats])
         in if intervals = [] then (120, 60, 0)
            else
              (let histogram = bpm_histogram intervals in
               if histogram = [] then (120, 60, 0)
               else
                 (let sorted = sort_key (\<lambda>(k, c). - int c) histogram;
                      mainBPM = max 60 (min 200 (fst (hd sorted)));
                      altBPM = (if mainBPM > 100 then round (real_of_int mainBPM / 2) else mainBPM * 2);
                      confidence = min 1 (max 0 (real (snd (hd sorted)) / real (length intervals)))
                  in (of_int mainBPM, of_int altBPM, confidence)))))"

subsection \<open>Downbeats and phrases\<close>

definition downbeat_step :: "real list \<Rightarrow> real \<Rightarrow> real \<Rightarrow> int \<times> nat list \<Rightarrow> nat \<Rightarrow> int \<times> nat list" where
  "downbeat_step beats beatInterval barsInSeconds st i =
     (let currentBar = fst st; downbeats = snd st;
          expectedDownbeat = of_int currentBar * barsInSeconds
      in if \<bar>beats ! i - expectedDownbeat\<bar> < beatInterval * 0.5
         then (currentBar + 1, downbeats @ [i])
         else if beats ! i > expectedDownbeat + beatInterval
         then (\<lfloor>beats ! i / barsInSeconds\<rfloor>, downbeats @ [i])
         else (currentBar, downbeats))"

definition detectDownbeats :: "real list \<Rightarrow> real \<Rightarrow> nat list" where
  "detectDownbeats beats bpm0 =
     (if length beats < 4 \<or> bpm0 \<le> 0 then [0, 4, 8, 12]
      else
        (let beatInterval = 60 / bpm0;
             barsInSeconds = beatInterval * 4;
             downbeats = snd (foldl (downbeat_step beats beatInterval barsInSeconds) (0, [0])
                                [1..<length beats])
         in if downbeats = [] then [0, 4, 8, 12] else downbeats))"

definition detectPhrases :: "real list \<Rightarrow> nat list \<Rightarrow> (nat \<times> nat) list" where
  "detectPhrases beats downbeats =
     map (\<lambda>j. (downbeats ! (4 * j), 16)) [0..<length downbeats div 4]"

subsection \<open>Key\<close>

text \<open>The remainder \<open>%\<close> takes the sign of the dividend.\<close>

definition js_rem :: "int \<Rightarrow> int \<Rightarrow> int" where
  "js_rem a b = sgn a * (\<bar>a\<bar> mod \<bar>b\<bar>)"

definition chroma_bin :: "real \<Rightarrow> real list \<Rightarrow> real list \<Rightarrow> nat \<Rightarrow> real list" where
  "chroma_bin sr spectrum chromagram j =
     (let freq = real j * sr / 4096 in
      if freq < 80 \<or> freq > 5000 then chromagram
      else
        (let pitchClass = js_rem (round (12 * log 2 (freq / 440))) 12;
             normalizedPC = js_rem (pitchClass + 12) 12
         in if normalizedPC \<ge> 0 \<and> normalizedPC < 12
            then chromagram[nat normalizedPC := chromagram ! nat normalizedPC + spectrum ! j]
            else chromagram))"

function chroma_loop :: "jsnum list \<Rightarrow> real \<Rightarrow> nat \<Rightarrow> real list \<Rightarrow> real list" where
  "chroma_loop data sr i chromagram =
     (if int i < int (length data) - 4096 then
        (let window = array_slice i (i + 4096) data in
         if length window < 4096 then chromagram
         else
           (let spectrum = fft window in
            if spectrum = [] then chroma_loop data sr (i + 4096) chromagram
            else chroma_loop data sr (i + 4096)
                   (foldl (chroma_bin sr spectrum) chromagram
                      [0..<(length spectrum + 1) div 2])))
      else chromagram)"
  by pat_completeness auto
termination
  by (relation "measure (\<lambda>(data, sr, i, chromagram). length data - i)") auto

declare chroma_loop.simps [simp del]

fun indexOf_from :: "real list \<Rightarrow> real \<Rightarrow> nat \<Rightarrow> int" where
  "indexOf_from [] v i = - 1"
| "indexOf_from (x # xs) v i = (if x = v then int i else indexOf_from xs v (Suc i))"

definition detectKey :: "AudioBuffer \<Rightarrow> int \<times> real" where
  "detectKey buffer =
     (if buffer_length buffer = 0 then (0, 0)
      else
        (case getChannelData buffer 0 of
           Inl e \<Rightarrow> (0, 0)
         | Inr data \<Rightarrow>
             if data = [] \<or> sampleRate buffer \<le> 0 then (0, 0)
             else
               (let chromagram = chroma_loop data (sampleRate buffer) 0 (replicate 12 0);
                    maxVal = Max (set chromagram)
                in if maxVal = 0 then (0, 0)
                   else
                     (let maxIdx = indexOf_from chromagram maxVal 0;
                          total = foldl (+) 0 chromagram;
                          confidence =
                            (if total > 0
                             then min 1 (max 0 (chromagram ! nat maxIdx / total))
                             else 0)
                      in (maxIdx, confidence)))))"

subsection \<open>Energy curve\<close>

definition window_rms :: "jsnum list \<Rightarrow> real" where
  "window_rms window =
     sqrt ((\<Sum>val\<leftarrow>window. (case val of Fin v \<Rightarrow> v * v | _ \<Rightarrow> 0)) / real (length window))"

function energy_loop :: "jsnum list \<Rightarrow> nat \<Rightarrow> nat \<Rightarrow> real list \<Rightarrow> real list" where
  "energy_loop data windowSize i energy =
     (if i < length data \<and> 0 < windowSize then
        (let window = array_slice i (i + windowSize) data in
         if window = [] then energy
         else energy_loop data windowSize (i + windowSize) (energy @ [window_rms window]))
      else energy)"
  by pat_completeness auto
termination
  by (relation "measure (\<lambda>(data, windowSize, i, energy). length data - i)") auto

declare energy_loop.simps [simp del]

definition smooth_at :: "real list \<Rightarrow> nat \<Rightarrow> real" where
  "smooth_at energy i =
     (let js = filter (\<lambda>j. int i + j \<ge> 0 \<and> int i + j < int (length energy)) [- 5 .. 5];
          total = (\<Sum>j\<leftarrow>js. energy ! nat (int i + j));
          count = length js
      in if count > 0 then total / real count else 0)"

definition analyzeEnergy :: "jsnum list \<Rightarrow> real \<Rightarrow> real list" where
  "analyzeEnergy data sr =
     (if data = [] \<or> sr \<le> 0 then [0.5]
      else
        (let windowSize = max 1 (nat \<lfloor>sr * 0.02\<rfloor>);
             energy = energy_loop data windowSize 0 []
         in if energy = [] then [0.5]
            else map (smooth_at energy) [0..<length energy]))"

subsection \<open>Vocal likelihood\<close>

definition vocal_prob :: "real \<Rightarrow> real list \<Rightarrow> real" where
  "vocal_prob sr spectrum =
     (let js = [0..<(length spectrum + 1) div 2];
          totalEnergy = (\<Sum>j\<leftarrow>js. spectrum ! j);
          vocalEnergy = (\<Sum>j\<leftarrow>js.
             (let freq = real j * sr / 4096 in
              if freq \<ge> 2000 \<and> freq \<le> 5000 then spectrum ! j * 2 else 0))
      in if totalEnergy > 0 then min 1 (max 0 (vocalEnergy / totalEnergy)) else 0)"

function vocal_loop :: "jsnum list \<Rightarrow> real \<Rightarrow> nat \<Rightarrow> real list \<Rightarrow> real list" where
  "vocal_loop data sr i vocalProb =
     (if int i < int (length data) - 4096 then
        (let window = array_slice i (i + 4096) data in
         if length window < 4096 then vocalProb
         else
           (let spectrum = fft window in
            if spectrum = [] then vocal_loop data sr (i + 4096) vocalProb
            else vocal_loop data sr (i + 4096)
                   (vocalProb @ [vocal_prob sr spectrum])))
      else vocalProb)"
  by pat_completeness auto
termination
  by (relation "measure (\<lambda>(data, sr, i, vocalProb). length data - i)") auto

declare vocal_loop.simps [simp del]

text \<open>
  \<open>new Float32Array([0.3])\<close> holds the 32-bit float nearest to 0.3, which is
  0.30000001192092896 and lies above the double 0.3.
\<close>

definition float32_0_3 :: real where
  "float32_0_3 = 5033165 / 16777216"

definition estimateVocalPresence :: "AudioBuffer \<Rightarrow> real list" where
  "estimateVocalPresence buffer =
     (if buffer_length buffer = 0 then [float32_0_3]
      else
        (case getChannelData buffer 0 of
           Inl e \<Rightarrow> [float32_0_3]
         | Inr data \<Rightarrow>
             if data = [] \<or> sampleRate buffer \<le> 0 then [float32_0_3]
             else
               (let vocalProb = vocal_loop data (sampleRate buffer) 0 [] in
                if vocalProb = [] then [float32_0_3] else vocalProb)))"

subsection \<open>Kicks\<close>

function kick_scan :: "jsnum list \<Rightarrow> nat \<Rightarrow> nat \<Rightarrow> real \<times> int \<Rightarrow> real \<times> int" where
  "kick_scan data searchEnd i st =
     (if i < searchEnd then
        (let window = array_slice i (i + 512) data in
         if window = [] then st
         else
           (let spectrum = fft window in
            if spectrum = [] then kick_scan data searchEnd (i + 512) st
            else
              (let lowEnergy = (\<Sum>j\<leftarrow>[0..<min 20 (length spectrum)]. spectrum ! j) in
               kick_scan data searchEnd (i + 512)
                 (if lowEnergy > fst st then (lowEnergy, int i) else st))))
      else st)"
  by pat_completeness auto
termination
  by (relation "measure (\<lambda>(data, searchEnd, i, st). searchEnd - i)") auto

declare kick_scan.simps [simp del]

definition kick_of_beat :: "jsnum list \<Rightarrow> real \<Rightarrow> nat \<Rightarrow> real \<Rightarrow> real list" where
  "kick_of_beat data sr windowSize beatTime =
     (if beatTime < 0 then []
      else
        (let beatSample = \<lfloor>beatTime * sr\<rfloor>;
             searchStart = max 0 (beatSample - int windowSize);
             searchEnd = min (int (length data)) (beatSample + int windowSize)
         in if searchStart \<ge> searchEnd then [beatTime]
            else
              (let kickSample = snd (kick_scan data (nat searchEnd) (nat searchStart) (0, beatSample));
                   kickTime = real_of_int kickSample / sr
               in if kickTime \<ge> 0 then [kickTime] else [])))"

definition detectKicks :: "jsnum list \<Rightarrow> real \<Rightarrow> real list \<Rightarrow> real list" where
  "detectKicks data sr beats =
     (if data = [] \<or> sr \<le> 0 \<or> beats = [] then [0, 0.5, 1.0, 1.5]
      else
        (let windowSize = max 1 (nat \<lfloor>sr * 0.05\<rfloor>);
             kicks = concat (map (kick_of_beat data sr windowSize) beats)
         in if kicks = [] then [0, 0.5, 1.0, 1.5] else kicks))"

subsection \<open>The analyzer\<close>

definition fallback_summary :: AnalysisSummary where
  "fallback_summary =
     \<lparr>bpm = 120, bpmAlt = 60, bpmConfidence = 0, camelot = ''1A'', keySemitone = 0,
      keyConfidence = 0, beatTimes = [0, 0.5, 1.0, 1.5], downbeatIndices = [0, 4, 8, 12],
      phraseSpans = [(0, 16)], energyCurve = [0.5], vocalLikelihood = [float32_0_3],
      kickTimes = [0, 0.5, 1.0, 1.5]\<rparr>"

text \<open>The body of the \<open>try\<close> block: \<open>Inl\<close> is a thrown error.\<close>

definition analyzeTrack_try :: "AudioBuffer \<Rightarrow> js_error + AnalysisSummary" where
  "analyzeTrack_try buffer =
     (if buffer_length buffer = 0 \<or> sampleRate buffer \<le> 0 then Inl (Error ''Invalid audio buffer'')
      else
        (case getChannelData buffer 0 of
           Inl e \<Rightarrow> Inl e
         | Inr channel \<Rightarrow>
             if channel = [] then Inl (Error ''Invalid channel data'')
             else
               (let sr = sampleRate buffer;
                    beats = detectBeats channel sr;
                    bpmData = calculateBPM beats;
                    downbeats = detectDownbeats beats (fst bpmData);
                    phrases = detectPhrases beats downbeats;
                    keyData = detectKey buffer;
                    energy = analyzeEnergy channel sr;
                    vocalProb = estimateVocalPresence buffer;
                    kicks = detectKicks channel sr beats
                in Inr \<lparr>bpm = fst bpmData, bpmAlt = fst (snd bpmData),
                        bpmConfidence = snd (snd bpmData),
                        camelot = (case map_of KEY_TO_CAMELOT (fst keyData) of
                                     Some c \<Rightarrow> c | None \<Rightarrow> ''1A''),
                        keySemitone = js_rem (fst keyData) 12,
                        keyConfidence = snd keyData,
                        beatTimes = beats, downbeatIndices = downbeats, phraseSpans = phrases,
                        energyCurve = energy, vocalLikelihood = vocalProb, kickTimes = kicks\<rparr>)))"

text \<open>\<open>analyzeTrack\<close>: the \<open>catch\<close> block turns every thrown error into the default summary.\<close>

definition analyzeTrack :: "AudioBuffer \<Rightarrow> AnalysisSummary" where
  "analyzeTrack buffer =
     (case analyzeTrack_try buffer of
        Inl e \<Rightarrow> fallback_summary
      | Inr summary \<Rightarrow> summary)"

section \<open>FX processor\<close>

text \<open>
  \<open>createBuffer\<close> gives a buffer of zeros; every operation below is called on a decoded
  buffer (at least one channel, a positive length and sample rate), for which
  \<open>createBuffer\<close> with the channel count, length and rate of its input does not throw.
  \<open>new Float32Array(n)\<close> throws a RangeError when \<open>n\<close> is negative or exceeds the
  largest typed-array length of the engine, the parameter \<open>maxLen\<close>. \<open>Math.random\<close> is
  the ambient random source: a stream of draws \<open>rng 0, rng 1, ...\<close>, each in [0, 1); an
  operation that draws \<open>n\<close> values returns the rest of the stream.
\<close>

text \<open>\<open>input[idx]\<close> on a typed array: \<open>undefined\<close> out of range, NaN once it is multiplied or stored.\<close>

definition read_sample :: "jsnum list \<Rightarrow> int \<Rightarrow> jsnum" where
  "read_sample input idx = (if 0 \<le> idx \<and> idx < int (length input) then input ! nat idx else NaN)"

definition sweep_channel :: "real list \<Rightarrow> nat \<Rightarrow> nat \<Rightarrow> jsnum list \<Rightarrow> jsnum list" where
  "sweep_channel noise startSample durationSamples channel =
     foldl (\<lambda>data i.
        (let progress = real i / real durationSamples;
             gain = progress;
             sampleIdx = startSample + i
         in if sampleIdx < length data
            then data[sampleIdx := js_add (data ! sampleIdx) (Fin (noise ! i * gain))]
            else data))
       channel [0..<durationSamples]"

text \<open>\<open>Inl\<close> is a thrown error; the result carries the rest of the random stream.\<close>

definition applyNoiseSweep ::
  "nat \<Rightarrow> (nat \<Rightarrow> real) \<Rightarrow> AudioBuffer \<Rightarrow> jsnum \<Rightarrow> jsnum \<Rightarrow>
   js_error + AudioBuffer \<times> (nat \<Rightarrow> real)" where
  "applyNoiseSweep maxLen rng buffer startTime duration =
     (if js_less startTime (Fin 0) \<or> js_le duration (Fin 0) \<or> \<not> isFinite startTime \<or>
         \<not> isFinite duration
      then Inr (buffer, rng)
      else
        (let sr = sampleRate buffer;
             startSample = nat (max 0 \<lfloor>fin_val startTime * sr\<rfloor>);
             durationSamples = \<lfloor>fin_val duration * sr\<rfloor>
         in if durationSamples < 0 \<or> int maxLen < durationSamples
            then Inl (RangeError ''Invalid typed array length'')
            else
              (let noise = map (\<lambda>i. (rng i * 2 - 1) * 0.3) [0..<nat durationSamples] in
               Inr (\<lparr>sampleRate = sr,
                     channelData = map (sweep_channel noise startSample (nat durationSamples))
                                     (channelData buffer)\<rparr>,
                    \<lambda>k. rng (k + nat durationSamples)))))"

definition reverb_channel :: "nat \<Rightarrow> nat \<Rightarrow> jsnum list \<Rightarrow> jsnum list" where
  "reverb_channel startSample durationSamples channel =
     (let reverb = map (\<lambda>i.
            (let srcIdx = startSample + durationSamples - i in
             if srcIdx < length channel
             then js_mul (js_mul (channel ! srcIdx) (Fin (1 - real i / real durationSamples))) (Fin 0.4)
             else Fin 0))
          [0..<durationSamples]
      in foldl (\<lambda>data i.
           (let targetIdx = startSample + i in
            if targetIdx < length data
            then data[targetIdx := js_add (data ! targetIdx) (reverb ! i)]
            else data))
         channel [0..<durationSamples])"

text \<open>The work array \<open>reverb\<close> is allocated once per channel.\<close>

definition applyReverseReverb ::
  "nat \<Rightarrow> AudioBuffer \<Rightarrow> jsnum \<Rightarrow> jsnum \<Rightarrow> js_error + AudioBuffer" where
  "applyReverseReverb maxLen buffer startTime duration =
     (if js_less startTime (Fin 0) \<or> js_le duration (Fin 0) \<or> \<not> isFinite startTime \<or>
         \<not> isFinite duration
      then Inr buffer
      else
        (let sr = sampleRate buffer;
             startSample = nat (max 0 \<lfloor>fin_val startTime * sr\<rfloor>);
             durationSamples = \<lfloor>fin_val duration * sr\<rfloor>
         in if channelData buffer \<noteq> [] \<and> (durationSamples < 0 \<or> int maxLen < durationSamples)
            then Inl (RangeError ''Invalid typed array length'')
            else Inr \<lparr>sampleRate = sr,
                   channelData = map (reverb_channel startSample (nat durationSamples))
                                   (channelData buffer)\<rparr>))"

definition tapeStop_channel :: "int \<Rightarrow> int \<Rightarrow> nat \<Rightarrow> jsnum list \<Rightarrow> jsnum list" where
  "tapeStop_channel stopSample durationSamples len input =
     map (\<lambda>i.
       if int i < stopSample - durationSamples then read_sample input (int i)
       else if int i < stopSample then
         (let progress = real_of_int (int i - (stopSample - durationSamples)) / real_of_int durationSamples;
              slowdown = 1 - progress * progress;
              readPos = real_of_int (stopSample - durationSamples)
                        + real_of_int (int i - (stopSample - durationSamples)) * slowdown;
              readIdx = \<lfloor>readPos\<rfloor>
          in if readIdx < int (length input)
             then js_mul (read_sample input readIdx) (Fin (1 - progress * 0.5))
             else Fin 0)
       else Fin 0)
     [0..<len]"

definition applyTapeStop :: "AudioBuffer \<Rightarrow> jsnum \<Rightarrow> jsnum \<Rightarrow> AudioBuffer" where
  "applyTapeStop buffer stopTime duration =
     (if js_less stopTime (Fin 0) \<or> js_le duration (Fin 0) \<or> \<not> isFinite stopTime \<or>
         \<not> isFinite duration
      then buffer
      else
        (let sr = sampleRate buffer;
             stopSample = max 0 (min (int (buffer_length buffer)) \<lfloor>fin_val stopTime * sr\<rfloor>);
             durationSamples = \<lfloor>fin_val duration * sr\<rfloor>
         in \<lparr>sampleRate = sr,
             channelData = map (tapeStop_channel stopSample durationSamples (buffer_length buffer))
                             (channelData buffer)\<rparr>))"

text \<open>\<open>i % sliceSamples\<close> for \<open>i \<ge> 0\<close>; \<open>None\<close> is NaN.\<close>

definition pos_in_slice :: "nat \<Rightarrow> jsnum \<Rightarrow> nat option" where
  "pos_in_slice i sliceSamples =
     (case sliceSamples of
        Fin s \<Rightarrow> if s = 0 then None else Some (i mod nat \<bar>\<lfloor>s\<rfloor>\<bar>)
      | PInf \<Rightarrow> Some i
      | NInf \<Rightarrow> Some i
      | NaN \<Rightarrow> None)"

text \<open>The number of rounds of \<open>for (i = 0; i < n; i++)\<close> when it ends.\<close>

definition loop_count :: "jsnum \<Rightarrow> nat" where
  "loop_count n = (case n of Fin v \<Rightarrow> nat \<lceil>v\<rceil> | _ \<Rightarrow> 0)"

definition stutter_channel :: "nat \<Rightarrow> jsnum \<Rightarrow> jsnum \<Rightarrow> nat \<Rightarrow> jsnum list \<Rightarrow> jsnum list" where
  "stutter_channel startSample stutterSamples sliceSamples len input =
     (let before = map (\<lambda>i. if i < startSample then read_sample input (int i) else Fin 0) [0..<len];
          stuttered = foldl (\<lambda>outputData i.
             (case pos_in_slice i sliceSamples of
                None \<Rightarrow> outputData
              | Some posInSlice \<Rightarrow>
                  (let srcIdx = startSample + posInSlice in
                   if srcIdx < length input
                   then (let targetIdx = startSample + i in
                         if targetIdx < length outputData
                         then outputData[targetIdx := input ! srcIdx]
                         else outputData)
                   else outputData)))
            before [0..<loop_count stutterSamples]
      in case stutterSamples of
           Fin v \<Rightarrow>
             foldl (\<lambda>outputData i. if i < length input then outputData[i := input ! i] else outputData)
               stuttered [nat (max 0 (int startSample + \<lfloor>v\<rfloor>))..<len]
         | _ \<Rightarrow> stuttered)"

text \<open>\<open>None\<close>: the call does not return (a loop bound that is infinite).\<close>

definition applyStutter ::
  "AudioBuffer \<Rightarrow> jsnum \<Rightarrow> jsnum \<Rightarrow> jsnum \<Rightarrow> jsnum \<Rightarrow> AudioBuffer option" where
  "applyStutter buffer startTime division bars bpm0 =
     (if js_less startTime (Fin 0) \<or> js_le division (Fin 0) \<or> js_le bars (Fin 0) \<or>
         js_le bpm0 (Fin 0) \<or> \<not> isFinite startTime \<or> \<not> isFinite bpm0
      then Some buffer
      else
        (let sr = sampleRate buffer;
             startSample = nat (max 0 \<lfloor>fin_val startTime * sr\<rfloor>);
             beatDuration = 60 / fin_val bpm0;
             stutterDuration = js_mul (Fin (beatDuration * 4)) bars;
             stutterSamples = js_floor (js_mul stutterDuration (Fin sr));
             sliceDuration = js_divide (Fin (beatDuration * 4)) division;
             sliceSamples = js_floor (js_mul sliceDuration (Fin sr))
         in if stutterSamples = PInf \<or> stutterSamples = NInf then None
            else Some \<lparr>sampleRate = sr,
                   channelData = map (stutter_channel startSample stutterSamples sliceSamples
                                        (buffer_length buffer)) (channelData buffer)\<rparr>))"

text \<open>
  A write to \<open>dataA[idx]\<close> takes effect for \<open>0 \<le> idx < length\<close> only: the test \<open>idx < length\<close>
  is false for NaN and \<open>+Infinity\<close>, and a typed array ignores an index that is negative.
\<close>

definition morphA_channel :: "jsnum \<Rightarrow> nat \<Rightarrow> jsnum list \<Rightarrow> jsnum list" where
  "morphA_channel startSample durationSamples inputA =
     foldl (\<lambda>dataA i.
        (case startSample of
           Fin s \<Rightarrow>
             (let idx = \<lfloor>s\<rfloor> + int i in
              if 0 \<le> idx \<and> idx < int (length dataA)
              then (let progress = real i / real durationSamples;
                        lowCut = 1 - progress * 0.7
                    in dataA[nat idx := js_mul (dataA ! nat idx) (Fin lowCut)])
              else dataA)
         | _ \<Rightarrow> dataA))
       inputA [0..<durationSamples]"

definition morphB_channel :: "nat \<Rightarrow> jsnum list \<Rightarrow> jsnum list" where
  "morphB_channel durationSamples inputB =
     foldl (\<lambda>dataB i.
        (let idx = i in
         if idx < length dataB
         then (let progress = real i / real durationSamples;
                   lowBoost = progress
               in dataB[idx := js_mul (dataB ! idx) (Fin (0.3 + lowBoost * 0.7))])
         else dataB))
       inputB [0..<durationSamples]"

definition applyEQMorph ::
  "AudioBuffer \<Rightarrow> AudioBuffer \<Rightarrow> jsnum \<Rightarrow> jsnum \<Rightarrow> (AudioBuffer \<times> AudioBuffer) option" where
  "applyEQMorph bufferA bufferB overlapStart duration =
     (let sr = sampleRate bufferA;
          startSample = js_floor (js_mul overlapStart (Fin sr));
          durationSamples = js_floor (js_mul duration (Fin sr))
      in if durationSamples = PInf then None
         else Some
           (\<lparr>sampleRate = sr,
             channelData = map (morphA_channel startSample (loop_count durationSamples))
                             (channelData bufferA)\<rparr>,
            \<lparr>sampleRate = sr,
             channelData = map (morphB_channel (loop_count durationSamples))
                             (channelData bufferB)\<rparr>))"

section \<open>Mastering: true-peak limiter\<close>

definition limiter_sample :: "real \<Rightarrow> jsnum list \<Rightarrow> nat \<Rightarrow> jsnum" where
  "limiter_sample ceilingLinear input i =
     (let maxPeak = foldl (\<lambda>mp j. if i + j < length input then js_max mp (js_abs (input ! (i + j))) else mp)
                      (js_abs (input ! i)) [1..<11];
          sample0 = input ! i;
          sample1 = (if js_greater maxPeak (Fin ceilingLinear)
                     then js_mul sample0 (js_divide (Fin ceilingLinear) maxPeak)
                     else sample0)
      in js_mul (js_tanh (js_mul sample1 (Fin 1.5))) (Fin 0.95))"

definition applyTruePeakLimiter :: "AudioBuffer \<Rightarrow> real \<Rightarrow> AudioBuffer" where
  "applyTruePeakLimiter buffer ceiling0 =
     (let ceilingLinear = 10 powr (ceiling0 / 20) in
      \<lparr>sampleRate = sampleRate buffer,
       channelData = map (\<lambda>input. map (limiter_sample ceilingLinear input) [0..<length input])
                       (channelData buffer)\<rparr>)"

section \<open>Mix renderer\<close>

subsection \<open>Plan, override and validation\<close>

text \<open>\<open>Partial<TransitionPlan>\<close>: every field may be absent.\<close>

record PlanOverride =
  o_style :: "TransitionStyle option"
  o_startBarA :: "jsnum option"
  o_startBarB :: "jsnum option"
  o_lengthBars :: "nat option"
  o_tempoOps :: "(Track \<times> jsnum) list option"
  o_pitchOps :: "(Track \<times> int \<times> bool) list option"
  o_fx :: "FxSpec list option"

text \<open>The spread \<open>{ ...plan, ...manualOverride }\<close>.\<close>

definition apply_override :: "TransitionPlan \<Rightarrow> PlanOverride \<Rightarrow> TransitionPlan" where
  "apply_override plan ov =
     \<lparr>style = (case o_style ov of None \<Rightarrow> style plan | Some v \<Rightarrow> v),
      startBarA = (case o_startBarA ov of None \<Rightarrow> startBarA plan | Some v \<Rightarrow> v),
      startBarB = (case o_startBarB ov of None \<Rightarrow> startBarB plan | Some v \<Rightarrow> v),
      lengthBars = (case o_lengthBars ov of None \<Rightarrow> lengthBars plan | Some v \<Rightarrow> v),
      tempoOps = (case o_tempoOps ov of None \<Rightarrow> tempoOps plan | Some v \<Rightarrow> v),
      pitchOps = (case o_pitchOps ov of None \<Rightarrow> pitchOps plan | Some v \<Rightarrow> v),
      fx = (case o_fx ov of None \<Rightarrow> fx plan | Some v \<Rightarrow> v)\<rparr>"

text \<open>
  The planning steps of \<open>mergeAudioFiles\<close>: the BPM check, the plan, the override, and the
  validation of \<open>startBarA\<close>. The result is the plan the renderer uses.
\<close>

definition merge_plan ::
  "AnalysisSummary \<Rightarrow> AnalysisSummary \<Rightarrow> MixMode \<Rightarrow> PlanOverride option \<Rightarrow> js_error + TransitionPlan" where
  "merge_plan analysisA analysisB mixMode manualOverride =
     (if bpm analysisA \<le> 0 \<or> bpm analysisB \<le> 0 then Inl (Error ''Invalid BPM detected'')
      else
        (case createTransitionPlan analysisA analysisB mixMode of
           Inl e \<Rightarrow> Inl e
         | Inr plan0 \<Rightarrow>
             (let plan1 = (case manualOverride of None \<Rightarrow> plan0 | Some ov \<Rightarrow> apply_override plan0 ov);
                  plan2 = (if js_less (startBarA plan1) (Fin 0) then plan1\<lparr>startBarA := Fin 0\<rparr> else plan1)
              in Inr plan2)))"

subsection \<open>FX stage\<close>







subsection \<open>Merge parameters and crossfade\<close>

definition merge_lengths :: "TransitionPlan \<Rightarrow> real \<Rightarrow> real \<Rightarrow> nat \<Rightarrow> nat \<Rightarrow> js_error + (nat \<times> nat)" where
  "merge_lengths plan bpmA sr lenA lenB =
     (let beatDurationA = 60 / bpmA;
          overlapStartA = js_max (Fin 0)
             (js_floor (js_mul (js_mul (js_mul (startBarA plan) (Fin 4)) (Fin beatDurationA)) (Fin sr)));
          maxOverlap = js_min overlapStartA (Fin (real lenA));
          totalLength = js_add maxOverlap (Fin (real lenB))
      in if js_le totalLength (Fin 0) \<or> \<not> isFinite totalLength
         then Inl (Error ''Invalid merge length'')
         else Inr (nat \<lfloor>fin_val maxOverlap\<rfloor>, nat \<lfloor>fin_val totalLength\<rfloor>))"

definition sCurve :: "real \<Rightarrow> real" where
  "sCurve x = x * x * (3 - 2 * x)"

text \<open>The pair \<open>(gainA, gainB)\<close> of the crossfade at a fade position.\<close>

definition crossfade_gains :: "TransitionStyle \<Rightarrow> real \<Rightarrow> real \<times> real" where
  "crossfade_gains st fadePosition =
     (if st = hard_downbeat then (1 - sCurve fadePosition, sCurve fadePosition)
      else if st = vocal_aware then (1 - fadePosition, fadePosition)
      else (cos (fadePosition * pi * 0.5), sin (fadePosition * pi * 0.5)))"

definition merge_channel ::
  "TransitionStyle \<Rightarrow> nat \<Rightarrow> int \<Rightarrow> nat \<Rightarrow> nat \<Rightarrow> nat \<Rightarrow> jsnum list \<Rightarrow> jsnum list \<Rightarrow> jsnum list" where
  "merge_channel st maxOverlap crossfadeSamples lenA lenB totalLength channelA channelB =
     (let copyEnd = min maxOverlap lenA;
          fadeStart = min maxOverlap lenA;
          actualCrossfadeSamples = min crossfadeSamples (min (int lenA - int fadeStart) (int lenB));
          fadeEnd = min (int fadeStart + actualCrossfadeSamples) (int totalLength)
      in map (\<lambda>i.
           if i < copyEnd then read_sample channelA (int i)
           else if int i < fadeEnd then
             (let fadePosition = (if actualCrossfadeSamples > 0
                                  then real (i - fadeStart) / real_of_int actualCrossfadeSamples else 0);
                  gains = crossfade_gains st fadePosition;
                  sampleA = (if i < lenA then read_sample channelA (int i) else Fin 0);
                  indexB = int i - int maxOverlap;
                  sampleB = (if indexB \<ge> 0 \<and> indexB < int lenB then read_sample channelB indexB else Fin 0)
              in js_add (js_mul sampleA (Fin (fst gains))) (js_mul sampleB (Fin (snd gains))))
           else
             (let indexB = int i - int maxOverlap in
              if indexB \<ge> 0 \<and> indexB < int lenB then read_sample channelB indexB else Fin 0))
         [0..<totalLength])"

subsection \<open>WAV emission\<close>

type_synonym byte = "8 word"

text \<open>
  The integer conversions of \<open>DataView\<close>: NaN and the infinities give 0, a finite number is
  truncated towards zero and reduced modulo the width.
\<close>

definition js_trunc :: "real \<Rightarrow> int" where
  "js_trunc v = (if v < 0 then \<lceil>v\<rceil> else \<lfloor>v\<rfloor>)"

definition toInt16 :: "jsnum \<Rightarrow> 16 word" where
  "toInt16 x = (case x of Fin v \<Rightarrow> word_of_int (js_trunc v) | _ \<Rightarrow> 0)"

definition toUint32 :: "jsnum \<Rightarrow> 32 word" where
  "toUint32 x = (case x of Fin v \<Rightarrow> word_of_int (js_trunc v) | _ \<Rightarrow> 0)"

definition setUint8 :: "nat \<Rightarrow> byte \<Rightarrow> byte list \<Rightarrow> byte list" where
  "setUint8 off b view = view[off := b]"

definition set16_le :: "nat \<Rightarrow> 16 word \<Rightarrow> byte list \<Rightarrow> byte list" where
  "set16_le off w view = view[off := ucast w, off + 1 := ucast (drop_bit 8 w)]"

definition set32_le :: "nat \<Rightarrow> 32 word \<Rightarrow> byte list \<Rightarrow> byte list" where
  "set32_le off w view =
     view[off := ucast w, off + 1 := ucast (drop_bit 8 w), off + 2 := ucast (drop_bit 16 w),
          off + 3 := ucast (drop_bit 24 w)]"

definition writeString :: "nat \<Rightarrow> string \<Rightarrow> byte list \<Rightarrow> byte list" where
  "writeString off str view =
     foldl (\<lambda>v i. setUint8 (off + i) (of_char (str ! i)) v) view [0..<length str]"




definition wav_header :: "nat \<Rightarrow> jsnum \<Rightarrow> nat \<Rightarrow> byte list \<Rightarrow> byte list" where
  "wav_header numberOfChannels0 sr len view =
     (let v1 = writeString 0 ''RIFF'' view;
          v2 = set32_le 4 (toUint32 (Fin (real (36 + len)))) v1;
          v3 = writeString 8 ''WAVE'' v2;
          v4 = writeString 12 ''fmt '' v3;
          v5 = set32_le 16 (toUint32 (Fin 16)) v4;
          v6 = set16_le 20 (toInt16 (Fin 1)) v5;
          v7 = set16_le 22 (toInt16 (Fin (real numberOfChannels0))) v6;
          v8 = set32_le 24 (toUint32 sr) v7;
          v9 = set32_le 28 (toUint32 (js_mul (js_mul sr (Fin (real numberOfChannels0))) (Fin 2))) v8;
          v10 = set16_le 32 (toInt16 (Fin (real (numberOfChannels0 * 2)))) v9;
          v11 = set16_le 34 (toInt16 (Fin 16)) v10;
          v12 = writeString 36 ''data'' v11
      in set32_le 40 (toUint32 (Fin (real len))) v12)"


subsection \<open>Example inputs\<close>

text \<open>A decoded buffer of \<open>n\<close> samples of silence: one channel at 48 kHz.\<close>

definition silence :: "nat \<Rightarrow> AudioBuffer" where
  "silence n = \<lparr>sampleRate = 48000, channelData = [replicate n (Fin 0)]\<rparr>"


text \<open>A plan override that sets \<open>startBarA\<close> only.\<close>

definition startBar_override :: "jsnum \<Rightarrow> PlanOverride" where
  "startBar_override bar =
     \<lparr>o_style = None, o_startBarA = Some bar, o_startBarB = None, o_lengthBars = None,
      o_tempoOps = None, o_pitchOps = None, o_fx = None\<rparr>"

subsection \<open>Two random streams\<close>




subsection \<open>Vocabulary of the analyzer's properties\<close>

text \<open>A Camelot code: the strings matched by \<open>^(1[0-2]|[1-9])[AB]$\<close>.\<close>

definition camelot_wellformed :: "string \<Rightarrow> bool" where
  "camelot_wellformed s =
     (case s of
        [d, l] \<Rightarrow> d \<in> set ''123456789'' \<and> l \<in> set ''AB''
      | [d1, d2, l] \<Rightarrow> d1 = CHR ''1'' \<and> d2 \<in> set ''012'' \<and> l \<in> set ''AB''
      | _ \<Rightarrow> False)"

text \<open>A silent channel: every sample is 0.\<close>

definition silent :: "jsnum list \<Rightarrow> bool" where
  "silent data = list_all (\<lambda>x. x = Fin 0) data"

subsection \<open>Vocabulary of the FX stage's properties\<close>




section \<open>Theorems: track analyzer\<close>

lemma key_table_wellformed:
  "camelot_wellformed (case map_of KEY_TO_CAMELOT k of Some c \<Rightarrow> c | None \<Rightarrow> ''1A'')"
  by (simp add: KEY_TO_CAMELOT_def camelot_wellformed_def)

lemma calculateBPM_range:
  "60 \<le> fst (calculateBPM beats) \<and> fst (calculateBPM beats) \<le> 200 \<and>
   fst (snd (calculateBPM beats)) =
     (if fst (calculateBPM beats) > 100 then of_int (round (fst (calculateBPM beats) / 2))
      else fst (calculateBPM beats) * 2)"
  by (auto simp: calculateBPM_def Let_def max_def min_def)

lemma indexOf_from_range:
  "v \<in> set xs \<Longrightarrow> int i \<le> indexOf_from xs v i \<and> indexOf_from xs v i < int i + int (length xs)"
proof (induction xs arbitrary: i)
  case Nil
  then show ?case by simp
next
  case (Cons x xs)
  show ?case
  proof (cases "x = v")
    case True
    then show ?thesis by simp
  next
    case False
    with Cons.prems have "v \<in> set xs" by simp
    from Cons.IH[OF this, of "Suc i"] False show ?thesis by simp
  qed
qed

lemma length_chroma_bin [simp]: "length (chroma_bin sr sp c j) = length c"
  by (simp add: chroma_bin_def Let_def)

lemma length_foldl_chroma_bin [simp]: "length (foldl (chroma_bin sr sp) c js) = length c"
  by (induction js arbitrary: c) simp_all

lemma length_chroma_loop [simp]: "length (chroma_loop data sr i c) = length c"
proof (induction data sr i c rule: chroma_loop.induct)
  case (1 data sr i c)
  show ?case
    using 1 by (subst chroma_loop.simps) (auto simp: Let_def simp del: chroma_loop.simps)
qed

lemma detectKey_range: "0 \<le> fst (detectKey b) \<and> fst (detectKey b) \<le> 11"
proof -
  have *: "0 \<le> indexOf_from c (Max (set c)) 0 \<and> indexOf_from c (Max (set c)) 0 \<le> 11"
    if "length c = 12" for c
  proof -
    have "c \<noteq> []" using that by auto
    then have "Max (set c) \<in> set c" by (simp add: Max_in)
    from indexOf_from_range[OF this, of 0] that show ?thesis by simp
  qed
  show ?thesis
    by (simp add: detectKey_def Let_def * split: sum.splits)
qed

lemma silent_slice: "silent data \<Longrightarrow> silent (array_slice s e data)"
  unfolding silent_def array_slice_def list_all_iff
  by (meson in_set_dropD in_set_takeD)

lemma silent_nth: "silent data \<Longrightarrow> i < length data \<Longrightarrow> data ! i = Fin 0"
  by (simp add: silent_def list_all_length)

lemma sum_list_zero_terms:
  "(\<And>x. x \<in> set xs \<Longrightarrow> f x = (0::real)) \<Longrightarrow> (\<Sum>x\<leftarrow>xs. f x) = 0"
  by (induction xs) simp_all

lemma fft_re_silent: "silent data \<Longrightarrow> fft_re data k = 0"
  unfolding fft_re_def by (rule sum_list_zero_terms) (simp add: silent_nth)

lemma fft_im_silent: "silent data \<Longrightarrow> fft_im data k = 0"
proof -
  assume s: "silent data"
  have "(\<Sum>i\<leftarrow>[0..<length data].
        (case data ! i of
           Fin x \<Rightarrow> x * sin (2 * pi * real k * real i / real (length data))
         | _ \<Rightarrow> 0)) = 0"
    by (rule sum_list_zero_terms) (simp add: silent_nth[OF s])
  then show ?thesis by (simp add: fft_im_def)
qed

lemma fft_silent: "silent data \<Longrightarrow> \<exists>n. fft data = replicate n 0"
proof -
  assume s: "silent data"
  show ?thesis
  proof (cases "data = []")
    case True
    then show ?thesis by (auto simp: fft_def)
  next
    case False
    have "fft data = map (\<lambda>k. 0) [0..<length data]"
      using False by (simp add: fft_def fft_re_silent[OF s] fft_im_silent[OF s])
    then show ?thesis by (auto simp: map_replicate_const)
  qed
qed

lemma flux_of_zero: "flux_of (replicate n 0) (replicate m 0) = 0"
  unfolding flux_of_def by (rule sum_list_zero_terms) simp

lemma spectralFlux_loop_silent:
  "silent data \<Longrightarrow> prev = None \<or> (\<exists>n. prev = Some (replicate n 0)) \<Longrightarrow>
   spectralFlux_loop data i prev acc = acc"
proof (induction data i prev acc rule: spectralFlux_loop.induct)
  case (1 data i prev acc)
  let ?w = "array_slice i (i + 2048) data"
  obtain n where n: "fft ?w = replicate n 0"
    using fft_silent[OF silent_slice[OF "1.prems"(1)]] by blast
  show ?case
  proof (cases "int i < int (length data) - 2048 \<and> \<not> length ?w < 2048")
    case False
    then show ?thesis by (subst spectralFlux_loop.simps) (auto simp: Let_def)
  next
    case True
    then have c1: "int i < int (length data) - 2048" and c2: "\<not> length ?w < 2048"
      by simp_all
    show ?thesis
    proof (cases "fft ?w = []")
      case True
      have "spectralFlux_loop data i prev acc = spectralFlux_loop data (i + 512) prev acc"
        using c1 c2 True by (subst spectralFlux_loop.simps) (simp add: Let_def)
      also have "\<dots> = acc"
        by (rule "1.IH"(1)[OF c1 refl c2 refl True "1.prems"])
      finally show ?thesis .
    next
      case False
      let ?acc' = "(case prev of None \<Rightarrow> acc
                 | Some p \<Rightarrow> (let flux = flux_of (fft ?w) p in
                     if flux > 0 then acc @ [sqrt flux] else acc))"
      have acc': "?acc' = acc"
        using "1.prems"(2) by (auto simp: n flux_of_zero)
      have "spectralFlux_loop data i prev acc =
            spectralFlux_loop data (i + 512) (Some (fft ?w)) ?acc'"
        using c1 c2 False by (subst spectralFlux_loop.simps) (simp add: Let_def)
      also have "\<dots> = ?acc'"
        by (rule "1.IH"(2)[OF c1 refl c2 refl False "1.prems"(1)]) (simp add: n)
      finally show ?thesis using acc' by simp
    qed
  qed
qed


lemma chroma_bin_zero: "j < n \<Longrightarrow> chroma_bin sr (replicate n 0) c j = c"
  by (simp add: chroma_bin_def Let_def)

lemma foldl_chroma_bin_zero:
  "\<forall>j\<in>set js. j < n \<Longrightarrow> foldl (chroma_bin sr (replicate n 0)) c js = c"
  by (induction js) (simp_all add: chroma_bin_zero)

lemma chroma_loop_silent: "silent data \<Longrightarrow> chroma_loop data sr i c = c"
proof (induction data sr i c rule: chroma_loop.induct)
  case (1 data sr i c)
  let ?w = "array_slice i (i + 4096) data"
  obtain n where n: "fft ?w = replicate n 0"
    using fft_silent[OF silent_slice[OF "1.prems"]] by blast
  show ?case
  proof (cases "int i < int (length data) - 4096 \<and> \<not> length ?w < 4096")
    case False
    then show ?thesis by (subst chroma_loop.simps) (auto simp: Let_def)
  next
    case True
    then have c1: "int i < int (length data) - 4096" and c2: "\<not> length ?w < 4096"
      by simp_all
    show ?thesis
    proof (cases "fft ?w = []")
      case True
      have "chroma_loop data sr i c = chroma_loop data sr (i + 4096) c"
        using c1 c2 True by (subst chroma_loop.simps) (simp add: Let_def)
      also have "\<dots> = c"
        by (rule "1.IH"(1)[OF c1 refl c2 refl True "1.prems"])
      finally show ?thesis .
    next
      case False
      let ?c' = "foldl (chroma_bin sr (fft ?w)) c [0..<(length (fft ?w) + 1) div 2]"
      have c': "?c' = c"
        unfolding n by (rule foldl_chroma_bin_zero) auto
      have "chroma_loop data sr i c = chroma_loop data sr (i + 4096) ?c'"
        using c1 c2 False by (subst chroma_loop.simps) (simp add: Let_def)
      also have "\<dots> = ?c'"
        by (rule "1.IH"(2)[OF c1 refl c2 refl False "1.prems"])
      finally show ?thesis using c' by simp
    qed
  qed
qed

lemma chroma_loop_short: "length data \<le> 4096 \<Longrightarrow> chroma_loop data sr 0 c = c"
  by (subst chroma_loop.simps) simp

lemma detectKey_degenerate:
  assumes "channelData b = data # rest" "length data \<le> 4096 \<or> silent data"
  shows "fst (detectKey b) = 0"
proof -
  have "chroma_loop data sr 0 (replicate 12 0) = replicate 12 0" for sr
    using assms(2) chroma_loop_short chroma_loop_silent by blast
  then show ?thesis
    using assms(1)
    by (simp add: detectKey_def getChannelData_def numberOfChannels_def Let_def)
qed

lemma calculateBPM_default: "calculateBPM default_beats = (120, 60, 1)"
  by (simp add: calculateBPM_def default_beats_def bpm_histogram_def Let_def upt_rec)

lemma detectBeats_degenerate:
  "length data < 2048 \<or> silent data \<Longrightarrow> detectBeats data sr = default_beats"
  by (auto simp: detectBeats_def Let_def spectralFlux_loop_silent)


lemma analyzeTrack_invalid:
  "buffer_length b = 0 \<or> sampleRate b \<le> 0 \<Longrightarrow> analyzeTrack b = fallback_summary"
  by (simp add: analyzeTrack_def analyzeTrack_try_def)

lemma analyzeTrack_quiet:
  assumes "getChannelData b 0 = Inr data" "data \<noteq> []" "0 < sampleRate b"
    and "length data < 2048 \<or> silent data"
  shows "bpm (analyzeTrack b) = 120 \<and> bpmAlt (analyzeTrack b) = 60 \<and>
    beatTimes (analyzeTrack b) = [0, 0.5, 1.0, 1.5] \<and> camelot (analyzeTrack b) = ''8B''"
proof -
  from assms(1) obtain rest where cd: "channelData b = data # rest"
    by (cases "channelData b")
       (auto simp: getChannelData_def numberOfChannels_def split: if_splits)
  have len: "buffer_length b \<noteq> 0"
    using cd assms(2) by (simp add: buffer_length_def)
  have key: "fst (detectKey b) = 0"
    using detectKey_degenerate[OF cd] assms(4) by auto
  have beats: "detectBeats data (sampleRate b) = default_beats"
    using detectBeats_degenerate[OF assms(4)] .
  have "bpm (analyzeTrack b) = 120 \<and> bpmAlt (analyzeTrack b) = 60 \<and>
    camelot (analyzeTrack b) = ''8B''"
    using assms(1-3) len
    by (simp add: analyzeTrack_def analyzeTrack_try_def Let_def key beats calculateBPM_default
        KEY_TO_CAMELOT_def)
  moreover have "beatTimes (analyzeTrack b) = default_beats"
    using assms(1-3) len
    by (simp add: analyzeTrack_def analyzeTrack_try_def Let_def beats)
  ultimately show ?thesis by (simp add: default_beats_def)
qed

text \<open>
  C1 (as amended). \<open>analyzeTrack\<close> returns a summary for every buffer: each error thrown in
  its body is caught and answered with the default summary (bpm 120, Camelot 1A, beat grid
  0, 0.5, 1.0, 1.5). An empty buffer or a sample rate that is not positive gives exactly
  that default summary. A channel that is shorter than one analysis frame (2048 samples)
  or silent, at a positive sample rate, throws nothing: its summary has bpm 120, the
  alternative 60 and the same beat grid, but its Camelot code is 8B, the table's entry for
  key 0, which \<open>detectKey\<close> returns when the chromagram is empty.
\<close>

theorem analyzeTrack_total_fallback:
  "(case analyzeTrack_try b of
      Inl e \<Rightarrow> analyzeTrack b = fallback_summary
    | Inr s \<Rightarrow> analyzeTrack b = s) \<and>
   (buffer_length b = 0 \<or> sampleRate b \<le> 0 \<longrightarrow> analyzeTrack b = fallback_summary) \<and>
   (\<forall>data. getChannelData b 0 = Inr data \<and> data \<noteq> [] \<and> 0 < sampleRate b \<and>
        (length data < 2048 \<or> silent data) \<longrightarrow>
      bpm (analyzeTrack b) = 120 \<and> bpmAlt (analyzeTrack b) = 60 \<and>
      beatTimes (analyzeTrack b) = [0, 0.5, 1.0, 1.5] \<and> camelot (analyzeTrack b) = ''8B'')"
  using analyzeTrack_invalid[of b] analyzeTrack_quiet[of b]
  by (auto simp: analyzeTrack_def split: sum.splits)

theorem analyzeTrack_total_fallback_witness:
  "analyzeTrack \<lparr>sampleRate = 0, channelData = [[Fin 1]]\<rparr> = fallback_summary \<and>
   bpm (analyzeTrack \<lparr>sampleRate = 48000, channelData = [replicate 5000 (Fin 0)]\<rparr>) = 120 \<and>
   camelot (analyzeTrack \<lparr>sampleRate = 48000, channelData = [replicate 5000 (Fin 0)]\<rparr>) = ''8B''"
  using analyzeTrack_total_fallback[of "\<lparr>sampleRate = 0, channelData = [[Fin 1]]\<rparr>"]
    analyzeTrack_total_fallback[of "\<lparr>sampleRate = 48000, channelData = [replicate 5000 (Fin 0)]\<rparr>"]
  by (simp add: getChannelData_def numberOfChannels_def silent_def list_all_iff)

text \<open>
  C1 as stated fails: four samples of silence at 48 kHz are degenerate (too short and
  silent), the summary has bpm 120 and the synthetic beat grid, and its Camelot code is not
  1A.
\<close>

theorem analyzeTrack_silent_counterexample:
  "bpm (analyzeTrack \<lparr>sampleRate = 48000, channelData = [replicate 4 (Fin 0)]\<rparr>) = 120 \<and>
   beatTimes (analyzeTrack \<lparr>sampleRate = 48000, channelData = [replicate 4 (Fin 0)]\<rparr>)
     = [0, 0.5, 1.0, 1.5] \<and>
   camelot (analyzeTrack \<lparr>sampleRate = 48000, channelData = [replicate 4 (Fin 0)]\<rparr>) \<noteq> ''1A''"
  using analyzeTrack_quiet[of "\<lparr>sampleRate = 48000, channelData = [replicate 4 (Fin 0)]\<rparr>"
      "replicate 4 (Fin 0)"]
  by (simp add: getChannelData_def numberOfChannels_def)

text \<open>
  C8. For every buffer the analyzer's bpm lies in [60, 200], its Camelot code matches
  \<open>^(1[0-2]|[1-9])[AB]$\<close>, and \<open>bpmAlt\<close> is bpm / 2 rounded when bpm exceeds 100 and
  twice the bpm otherwise.
\<close>

theorem analyzeTrack_bpm_camelot:
  "60 \<le> bpm (analyzeTrack b) \<and> bpm (analyzeTrack b) \<le> 200 \<and>
   camelot_wellformed (camelot (analyzeTrack b)) \<and>
   bpmAlt (analyzeTrack b) =
     (if bpm (analyzeTrack b) > 100 then of_int (round (bpm (analyzeTrack b) / 2))
      else bpm (analyzeTrack b) * 2)"
proof (cases "analyzeTrack_try b")
  case (Inl e)
  then show ?thesis
    by (simp add: analyzeTrack_def fallback_summary_def camelot_wellformed_def)
next
  case (Inr s)
  then show ?thesis
    using calculateBPM_range key_table_wellformed
    by (auto simp: analyzeTrack_def analyzeTrack_try_def Let_def split: if_splits sum.splits)
qed

text \<open>
  C10. \<open>detectKey\<close> returns an index in [0, 11] (the dominant bin of a chromagram of 12
  bins, or 0), so the Camelot code of \<open>analyzeTrack\<close> is the default 1A or one of the
  codes of entries 0 to 11 of the key table; entries 12 to 23 are never looked up.
\<close>

theorem analyzeTrack_camelot_major:
  "0 \<le> fst (detectKey b) \<and> fst (detectKey b) \<le> 11 \<and>
   (camelot (analyzeTrack b) = ''1A'' \<or>
    camelot (analyzeTrack b) \<in> set (map snd (take 12 KEY_TO_CAMELOT)))"
proof -
  let ?c = "case map_of KEY_TO_CAMELOT (fst (detectKey b)) of Some c \<Rightarrow> c | None \<Rightarrow> ''1A''"
  have k: "0 \<le> fst (detectKey b) \<and> fst (detectKey b) \<le> 11" by (rule detectKey_range)
  then have "fst (detectKey b) \<in> {0,1,2,3,4,5,6,7,8,9,10,11}" by (simp, presburger)
  then have tbl: "?c \<in> set (map snd (take 12 KEY_TO_CAMELOT))"
    by (auto simp: KEY_TO_CAMELOT_def)
  show ?thesis
  proof (cases "analyzeTrack_try b")
    case (Inl e)
    then show ?thesis using k by (simp add: analyzeTrack_def fallback_summary_def)
  next
    case (Inr s)
    then have "camelot (analyzeTrack b) = ?c"
      by (auto simp: analyzeTrack_def analyzeTrack_try_def Let_def split: if_splits sum.splits)
    then show ?thesis using tbl k by simp
  qed
qed



section \<open>Theorems: the analysis of silence and of short buffers\<close>

lemma vocal_prob_zero: "vocal_prob sr (replicate n 0) = 0"
proof -
  have "(\<Sum>j\<leftarrow>[0..<(n + 1) div 2]. replicate n (0::real) ! j) = 0"
    by (rule sum_list_zero_terms) auto
  then show ?thesis by (simp add: vocal_prob_def Let_def)
qed

lemma vocal_loop_silent:
  "silent data \<Longrightarrow> \<exists>k. vocal_loop data sr i acc = acc @ replicate k 0"
proof (induction data sr i acc rule: vocal_loop.induct)
  case (1 data sr i acc)
  let ?w = "array_slice i (i + 4096) data"
  obtain n where n: "fft ?w = replicate n 0"
    using fft_silent[OF silent_slice[OF "1.prems"]] by blast
  show ?case
  proof (cases "int i < int (length data) - 4096 \<and> \<not> length ?w < 4096")
    case False
    then have "vocal_loop data sr i acc = acc @ replicate 0 0"
      by (subst vocal_loop.simps) (auto simp: Let_def)
    then show ?thesis by blast
  next
    case True
    then have c1: "int i < int (length data) - 4096" and c2: "\<not> length ?w < 4096"
      by simp_all
    show ?thesis
    proof (cases "fft ?w = []")
      case True
      have "vocal_loop data sr i acc = vocal_loop data sr (i + 4096) acc"
        using c1 c2 True by (subst vocal_loop.simps) (simp add: Let_def)
      moreover have "\<exists>k. vocal_loop data sr (i + 4096) acc = acc @ replicate k 0"
        by (rule "1.IH"(1)[OF c1 refl c2 refl True "1.prems"])
      ultimately show ?thesis by simp
    next
      case False
      have "vocal_loop data sr i acc =
            vocal_loop data sr (i + 4096) (acc @ [vocal_prob sr (fft ?w)])"
        using c1 c2 False by (subst vocal_loop.simps) (simp add: Let_def)
      moreover obtain k where
        "vocal_loop data sr (i + 4096) (acc @ [vocal_prob sr (fft ?w)]) =
         (acc @ [vocal_prob sr (fft ?w)]) @ replicate k 0"
        using "1.IH"(2)[OF c1 refl c2 refl False "1.prems"] by blast
      ultimately have "vocal_loop data sr i acc = acc @ replicate (Suc k) 0"
        by (simp add: n vocal_prob_zero)
      then show ?thesis by blast
    qed
  qed
qed

lemma vocal_loop_short: "length data \<le> 4096 \<Longrightarrow> vocal_loop data sr 0 [] = []"
  by (subst vocal_loop.simps) simp

lemma vocal_loop_silent_long:
  assumes "silent data" "4096 < length data"
  shows "\<exists>k. vocal_loop data sr 0 [] = replicate (Suc k) 0"
proof -
  let ?w = "array_slice 0 4096 data"
  have len: "length ?w = 4096" using assms(2) by (simp add: array_slice_def)
  then have ne: "fft ?w \<noteq> []" by (auto simp: fft_def)
  obtain n where n: "fft ?w = replicate n 0"
    using fft_silent[OF silent_slice[OF assms(1)]] by blast
  have "vocal_loop data sr 0 [] = vocal_loop data sr 4096 [vocal_prob sr (fft ?w)]"
    using assms(2) len ne by (subst vocal_loop.simps) (simp add: Let_def)
  moreover obtain k where
    "vocal_loop data sr 4096 [vocal_prob sr (fft ?w)] = [vocal_prob sr (fft ?w)] @ replicate k 0"
    using vocal_loop_silent[OF assms(1)] by blast
  ultimately have "vocal_loop data sr 0 [] = replicate (Suc k) 0"
    by (simp add: n vocal_prob_zero)
  then show ?thesis by blast
qed

lemma foldl_add_zeros: "foldl (+) (0::real) (replicate k 0) = 0"
  by (induction k) simp_all

lemma detectDownbeats_default: "detectDownbeats default_beats 120 = [0, 2, 3]"
  by (simp add: detectDownbeats_def default_beats_def downbeat_step_def Let_def eval_nat_numeral)

lemma analyzeTrack_downbeats:
  assumes "getChannelData b 0 = Inr data" "data \<noteq> []" "0 < sampleRate b"
    and "length data < 2048 \<or> silent data"
  shows "downbeatIndices (analyzeTrack b) = [0, 2, 3]"
proof -
  from assms(1) obtain rest where cd: "channelData b = data # rest"
    by (cases "channelData b")
       (auto simp: getChannelData_def numberOfChannels_def split: if_splits)
  have len: "buffer_length b \<noteq> 0"
    using cd assms(2) by (simp add: buffer_length_def)
  have beats: "detectBeats data (sampleRate b) = default_beats"
    using detectBeats_degenerate[OF assms(4)] .
  show ?thesis
    using assms(1-3) len
    by (simp add: analyzeTrack_def analyzeTrack_try_def Let_def beats calculateBPM_default
        detectDownbeats_default)
qed

lemma analyzeTrack_vocal_silent:
  assumes "getChannelData b 0 = Inr data" "0 < sampleRate b" "silent data" "4096 < length data"
  shows "avgVocal (analyzeTrack b) = Fin 0"
proof -
  from assms(1) obtain rest where cd: "channelData b = data # rest"
    by (cases "channelData b")
       (auto simp: getChannelData_def numberOfChannels_def split: if_splits)
  have ne: "data \<noteq> []" using assms(4) by auto
  have len: "buffer_length b \<noteq> 0"
    using cd ne by (simp add: buffer_length_def)
  obtain k where k: "vocal_loop data (sampleRate b) 0 [] = replicate (Suc k) 0"
    using vocal_loop_silent_long[OF assms(3,4)] by blast
  have "estimateVocalPresence b = replicate (Suc k) 0"
    using assms(1,2) len ne by (simp add: estimateVocalPresence_def Let_def k)
  then have "vocalLikelihood (analyzeTrack b) = replicate (Suc k) 0"
    using assms(1,2) len ne
    by (simp add: analyzeTrack_def analyzeTrack_try_def Let_def)
  then have "avgVocal (analyzeTrack b) =
      js_divide (Fin (foldl (+) 0 (replicate (Suc k) 0))) (Fin (real (Suc k)))"
    by (simp only: avgVocal_def length_replicate)
  then show ?thesis
    by (simp only: foldl_add_zeros) simp
qed

lemma analyzeTrack_vocal_short:
  assumes "getChannelData b 0 = Inr data" "0 < sampleRate b" "data \<noteq> []" "length data \<le> 4096"
  shows "vocalLikelihood (analyzeTrack b) = [float32_0_3]"
proof -
  from assms(1) obtain rest where cd: "channelData b = data # rest"
    by (cases "channelData b")
       (auto simp: getChannelData_def numberOfChannels_def split: if_splits)
  have len: "buffer_length b \<noteq> 0"
    using cd assms(3) by (simp add: buffer_length_def)
  have "estimateVocalPresence b = [float32_0_3]"
    using assms(1-3) len
    by (simp add: estimateVocalPresence_def Let_def vocal_loop_short[OF assms(4)])
  then show ?thesis
    using assms(1-3) len
    by (simp add: analyzeTrack_def analyzeTrack_try_def Let_def)
qed

text \<open>
  Two seconds of silence at 48 kHz: bpm 120 in 8B, three downbeats (one bar), and a vocal
  likelihood of 0 in every window. Four samples of silence: the same bpm, key and downbeats,
  and the default vocal likelihood, which is above 0.3.
\<close>

lemma getChannelData_silence: "getChannelData (silence n) 0 = Inr (replicate n (Fin 0))"
  by (simp add: silence_def getChannelData_def numberOfChannels_def)

lemma silent_replicate: "silent (replicate n (Fin 0))"
  by (simp add: silent_def list_all_iff)

lemma analyzeTrack_silence_long:
  "bpm (analyzeTrack (silence 96000)) = 120 \<and>
   camelot (analyzeTrack (silence 96000)) = ''8B'' \<and>
   downbeatIndices (analyzeTrack (silence 96000)) = [0, 2, 3] \<and>
   avgVocal (analyzeTrack (silence 96000)) = Fin 0"
  using analyzeTrack_quiet[OF getChannelData_silence[of 96000]]
    analyzeTrack_downbeats[OF getChannelData_silence[of 96000]]
    analyzeTrack_vocal_silent[OF getChannelData_silence[of 96000]]
  by (simp add: silent_replicate silence_def)

lemma analyzeTrack_silence_short:
  "bpm (analyzeTrack (silence 4)) = 120 \<and>
   camelot (analyzeTrack (silence 4)) = ''8B'' \<and>
   downbeatIndices (analyzeTrack (silence 4)) = [0, 2, 3] \<and>
   avgVocal (analyzeTrack (silence 4)) = Fin float32_0_3"
  using analyzeTrack_quiet[OF getChannelData_silence[of 4]]
    analyzeTrack_downbeats[OF getChannelData_silence[of 4]]
    analyzeTrack_vocal_short[OF getChannelData_silence[of 4]]
  by (simp add: silent_replicate silence_def avgVocal_def)

section \<open>Theorems: transition planner\<close>

text \<open>
  C7. When both-vocal does not hold, the keys are Camelot-compatible and the tempo delta
  \<open>|bpm_a - bpm_b| / bpm_a\<close> is below 0.02, the planner selects \<open>eq_morph\<close> with 16 bars in
  \<open>club_smooth\<close> mode and 8 bars otherwise. The two earlier rules of the decision table win
  over it in order: both-vocal gives \<open>vocal_aware\<close> with 4 bars, and incompatible keys with
  a tempo delta above 0.06 give \<open>hard_downbeat\<close> with 4 bars.
\<close>

theorem createTransitionPlan_eq_morph:
  assumes kc: "areKeysCompatible (camelot a) (camelot b) = Inr k"
  shows "\<exists>p. createTransitionPlan a b mode = Inr p \<and>
    (bothVocal a b \<longrightarrow> style p = vocal_aware \<and> lengthBars p = 4) \<and>
    (\<not> bothVocal a b \<and> \<not> k \<and> js_greater (tempoDelta a b) (Fin 0.06) \<longrightarrow>
       style p = hard_downbeat \<and> lengthBars p = 4) \<and>
    (\<not> bothVocal a b \<and> k \<and> js_less (tempoDelta a b) (Fin 0.02) \<longrightarrow>
       style p = eq_morph \<and> lengthBars p = (if mode = club_smooth then 16 else 8))"
  using kc by (simp add: createTransitionPlan_def Let_def)

text \<open>
  The analyses of two seconds of silence give \<open>eq_morph\<close> (16 bars in \<open>club_smooth\<close>, 8 in
  \<open>neutral\<close>). The analyses of four samples of silence, and the analyzer's default summary,
  carry the default vocal likelihood and give \<open>vocal_aware\<close>. A track at 120 bpm in 1A with
  a vocal likelihood of 0.25 followed by one at 140 bpm in 7A gives \<open>hard_downbeat\<close>.
\<close>

theorem createTransitionPlan_eq_morph_witness:
  "(\<exists>p. createTransitionPlan (analyzeTrack (silence 96000)) (analyzeTrack (silence 96000))
          club_smooth = Inr p \<and> style p = eq_morph \<and> lengthBars p = 16) \<and>
   (\<exists>p. createTransitionPlan (analyzeTrack (silence 96000)) (analyzeTrack (silence 96000))
          neutral = Inr p \<and> style p = eq_morph \<and> lengthBars p = 8) \<and>
   (\<exists>p. createTransitionPlan (analyzeTrack (silence 4)) (analyzeTrack (silence 4))
          club_smooth = Inr p \<and> style p = vocal_aware \<and> lengthBars p = 4) \<and>
   (\<exists>p. createTransitionPlan fallback_summary fallback_summary neutral = Inr p \<and>
        style p = vocal_aware \<and> lengthBars p = 4) \<and>
   (\<exists>p. createTransitionPlan (fallback_summary\<lparr>vocalLikelihood := [0.25]\<rparr>)
          (fallback_summary\<lparr>bpm := 140, camelot := ''7A''\<rparr>) club_smooth = Inr p \<and>
        style p = hard_downbeat \<and> lengthBars p = 4)"
proof -
  have k8: "areKeysCompatible ''8B'' ''8B'' = Inr True"
    by (simp add: areKeysCompatible_def CAMELOT_WHEEL_def)
  have k1: "areKeysCompatible ''1A'' ''1A'' = Inr True"
    by (simp add: areKeysCompatible_def CAMELOT_WHEEL_def)
  have k17: "areKeysCompatible ''1A'' ''7A'' = Inr False"
    by (simp add: areKeysCompatible_def CAMELOT_WHEEL_def)
  have v1: "\<not> bothVocal (analyzeTrack (silence 96000)) (analyzeTrack (silence 96000))"
    by (simp add: bothVocal_def analyzeTrack_silence_long js_greater_def)
  have v2: "bothVocal (analyzeTrack (silence 4)) (analyzeTrack (silence 4))"
    by (simp add: bothVocal_def analyzeTrack_silence_short js_greater_def float32_0_3_def)
  have v3: "bothVocal fallback_summary fallback_summary"
    by (simp add: bothVocal_def avgVocal_def fallback_summary_def js_greater_def
        float32_0_3_def)
  have v4: "\<not> bothVocal (fallback_summary\<lparr>vocalLikelihood := [0.25]\<rparr>)
                (fallback_summary\<lparr>bpm := 140, camelot := ''7A''\<rparr>)"
    by (simp add: bothVocal_def avgVocal_def fallback_summary_def js_greater_def)
  have t1: "tempoDelta (analyzeTrack (silence 96000)) (analyzeTrack (silence 96000)) = Fin 0"
    by (simp add: tempoDelta_def analyzeTrack_silence_long)
  have t4: "js_greater (tempoDelta (fallback_summary\<lparr>vocalLikelihood := [0.25]\<rparr>)
                (fallback_summary\<lparr>bpm := 140, camelot := ''7A''\<rparr>)) (Fin 0.06)"
    by (simp add: tempoDelta_def fallback_summary_def js_greater_def)
  have c: "camelot (analyzeTrack (silence 96000)) = ''8B''"
      "camelot (analyzeTrack (silence 4)) = ''8B''"
      "camelot fallback_summary = ''1A''"
      "camelot (fallback_summary\<lparr>vocalLikelihood := [0.25]\<rparr>) = ''1A''"
      "camelot (fallback_summary\<lparr>bpm := 140, camelot := ''7A''\<rparr>) = ''7A''"
    by (simp_all add: analyzeTrack_silence_long analyzeTrack_silence_short fallback_summary_def)
  show ?thesis
    using createTransitionPlan_eq_morph[of "analyzeTrack (silence 96000)"
        "analyzeTrack (silence 96000)" True club_smooth]
      createTransitionPlan_eq_morph[of "analyzeTrack (silence 96000)"
        "analyzeTrack (silence 96000)" True neutral]
      createTransitionPlan_eq_morph[of "analyzeTrack (silence 4)"
        "analyzeTrack (silence 4)" True club_smooth]
      createTransitionPlan_eq_morph[of fallback_summary fallback_summary True neutral]
      createTransitionPlan_eq_morph[of "fallback_summary\<lparr>vocalLikelihood := [0.25]\<rparr>"
        "fallback_summary\<lparr>bpm := 140, camelot := ''7A''\<rparr>" False club_smooth]
      k8 k1 k17 v1 v2 v3 v4 t1 t4
    unfolding c
    by simp
qed

section \<open>Theorems: crossfade gains\<close>

text \<open>
  C6. For the style \<open>hard_downbeat\<close> (S-curve) the two gains add up to 1 at the fade
  positions 0, 1/2 and 1; for every style other than \<open>hard_downbeat\<close> and \<open>vocal_aware\<close>
  (equal-power curves) the squares of the two gains add up to 1 at every fade position.
\<close>

theorem crossfade_gain_laws:
  "fst (crossfade_gains hard_downbeat 0) + snd (crossfade_gains hard_downbeat 0) = 1 \<and>
   fst (crossfade_gains hard_downbeat (1/2)) + snd (crossfade_gains hard_downbeat (1/2)) = 1 \<and>
   fst (crossfade_gains hard_downbeat 1) + snd (crossfade_gains hard_downbeat 1) = 1 \<and>
   (st \<noteq> hard_downbeat \<and> st \<noteq> vocal_aware \<longrightarrow>
      (fst (crossfade_gains st x))\<^sup>2 + (snd (crossfade_gains st x))\<^sup>2 = 1)"
  by (simp add: crossfade_gains_def sCurve_def)

theorem crossfade_gain_laws_witness:
  "(fst (crossfade_gains eq_morph (1/2)))\<^sup>2 + (snd (crossfade_gains eq_morph (1/2)))\<^sup>2 = 1"
  using crossfade_gain_laws[of eq_morph "1/2"] by simp

section \<open>Theorems: true-peak limiter\<close>

lemma isFinite_iff: "isFinite x \<longleftrightarrow> (\<exists>v. x = Fin v)"
  by (cases x) simp_all

lemma lookahead_finite:
  "isFinite mp \<Longrightarrow> \<forall>x\<in>set input. isFinite x \<Longrightarrow>
   isFinite (foldl (\<lambda>mp j. if i + j < length input then js_max mp (js_abs (input ! (i + j))) else mp) mp js)"
proof (induction js arbitrary: mp)
  case Nil
  then show ?case by simp
next
  case (Cons j js)
  show ?case
  proof (cases "i + j < length input")
    case True
    then have "isFinite (input ! (i + j))" using Cons.prems(2) by simp
    then have "isFinite (js_max mp (js_abs (input ! (i + j))))"
      using Cons.prems(1) by (auto simp: isFinite_iff)
    from Cons.IH[OF this Cons.prems(2)] True show ?thesis by simp
  next
    case False
    with Cons.IH[OF Cons.prems] show ?thesis by simp
  qed
qed

lemma soft_clip_bound: "\<bar>tanh (s::real) * 0.95\<bar> < 0.95"
proof -
  have "\<bar>tanh s\<bar> < 1" using tanh_real_lt_1[of s] tanh_real_gt_neg1[of s] by simp
  then show ?thesis by (simp add: abs_mult)
qed

lemma limiter_core:
  assumes "0 < cl"
  shows "\<exists>v. js_mul (js_tanh (js_mul
            (if js_greater (Fin m) (Fin cl) then js_mul (Fin a) (js_divide (Fin cl) (Fin m)) else Fin a)
            (Fin 1.5))) (Fin 0.95) = Fin v \<and> \<bar>v\<bar> < 0.95"
proof -
  let ?e = "js_mul (js_tanh (js_mul
            (if js_greater (Fin m) (Fin cl) then js_mul (Fin a) (js_divide (Fin cl) (Fin m)) else Fin a)
            (Fin 1.5))) (Fin 0.95)"
  have "\<exists>s. ?e = Fin (tanh s * 0.95)"
  proof (cases "cl < m")
    case True
    then have "m \<noteq> 0" using assms by simp
    then have "?e = Fin (tanh (a * (cl / m) * 1.5) * 0.95)"
      using True by (simp add: js_greater_def)
    then show ?thesis by blast
  next
    case False
    then have "?e = Fin (tanh (a * 1.5) * 0.95)"
      by (simp add: js_greater_def)
    then show ?thesis by blast
  qed
  then obtain s where "?e = Fin (tanh s * 0.95)" by blast
  then show ?thesis using soft_clip_bound[of s] by blast
qed

lemma limiter_sample_bound:
  assumes "0 < cl" "\<forall>x\<in>set input. isFinite x" "i < length input"
  shows "\<exists>v. limiter_sample cl input i = Fin v \<and> \<bar>v\<bar> < 0.95"
proof -
  let ?mp = "foldl (\<lambda>mp j. if i + j < length input then js_max mp (js_abs (input ! (i + j))) else mp)
                      (js_abs (input ! i)) [1..<11]"
  obtain a where a: "input ! i = Fin a" using assms(2,3) by (metis isFinite_iff nth_mem)
  have "isFinite ?mp" by (rule lookahead_finite) (simp_all add: a assms(2))
  then obtain m where m: "?mp = Fin m" by (auto simp: isFinite_iff)
  show ?thesis
    unfolding limiter_sample_def Let_def m
    unfolding a
    by (rule limiter_core[OF assms(1)])
qed

text \<open>
  C2. When every sample of the input buffer is finite, every sample of the limiter's output
  is a finite number \<open>y\<close> with \<open>|y| < 0.95\<close>, whatever the ceiling: the soft clip
  \<open>0.95 * tanh (1.5 * x)\<close> is applied to every sample.
\<close>

theorem applyTruePeakLimiter_bound:
  assumes "\<forall>ch\<in>set (channelData buffer). \<forall>x\<in>set ch. isFinite x"
  shows "\<forall>ch\<in>set (channelData (applyTruePeakLimiter buffer ceiling0)).
           \<forall>y\<in>set ch. \<exists>v. y = Fin v \<and> \<bar>v\<bar> < 0.95"
proof (intro ballI)
  fix ch y
  assume ch: "ch \<in> set (channelData (applyTruePeakLimiter buffer ceiling0))" and y: "y \<in> set ch"
  from ch obtain input where input: "input \<in> set (channelData buffer)"
    and ch_eq: "ch = map (limiter_sample (10 powr (ceiling0 / 20)) input) [0..<length input]"
    by (auto simp: applyTruePeakLimiter_def Let_def)
  from y ch_eq obtain i where i: "i < length input"
    and y_eq: "y = limiter_sample (10 powr (ceiling0 / 20)) input i"
    by auto
  have fin: "\<forall>x\<in>set input. isFinite x" using assms input by blast
  show "\<exists>v. y = Fin v \<and> \<bar>v\<bar> < 0.95"
    unfolding y_eq by (rule limiter_sample_bound[OF _ fin i]) simp
qed

theorem applyTruePeakLimiter_bound_witness:
  "\<exists>v. channelData (applyTruePeakLimiter \<lparr>sampleRate = 48000, channelData = [[Fin 2, Fin 0]]\<rparr> (- 1)) ! 0 ! 0 = Fin v
      \<and> \<bar>v\<bar> < 0.95"
  using applyTruePeakLimiter_bound[of "\<lparr>sampleRate = 48000, channelData = [[Fin 2, Fin 0]]\<rparr>" "- 1"]
  by (simp add: applyTruePeakLimiter_def Let_def)


section \<open>Theorems: the plan the renderer uses\<close>

lemma floor_three_quarters:
  "1 \<le> t \<Longrightarrow> 0 \<le> \<lfloor>real t * 0.75\<rfloor> \<and> \<lfloor>real t * 0.75\<rfloor> < int t"
proof -
  assume t: "1 \<le> t"
  have "real_of_int \<lfloor>real t * 0.75\<rfloor> \<le> real t * 0.75" by (rule of_int_floor_le)
  also have "\<dots> < real t" using t by simp
  finally have "\<lfloor>real t * 0.75\<rfloor> < int t" by linarith
  moreover have "0 \<le> \<lfloor>real t * 0.75\<rfloor>" by simp
  ultimately show ?thesis by simp
qed

lemma totalBarsA_of_pos: "1 \<le> totalBarsA_of a"
  by (simp add: totalBarsA_of_def)

lemma createTransitionPlan_startBarA:
  assumes "createTransitionPlan a b mode = Inr p"
  shows "startBarA p = Fin (of_int \<lfloor>real (totalBarsA_of a) * 0.75\<rfloor>)"
proof -
  have "max 0 \<lfloor>real (totalBarsA_of a) * 0.75\<rfloor> = \<lfloor>real (totalBarsA_of a) * 0.75\<rfloor>"
    using floor_three_quarters[OF totalBarsA_of_pos[of a]] by simp
  moreover have "startBarA p = Fin (of_int (max 0 \<lfloor>real (totalBarsA_of a) * 0.75\<rfloor>))"
    using assms
    by (auto simp: createTransitionPlan_def Let_def split: sum.splits prod.splits)
  ultimately show ?thesis by simp
qed

lemma merge_lengths_overlap:
  assumes "merge_lengths p bpmA sr lenA lenB = Inr (mo, tlen)"
  shows "mo \<le> lenA"
proof -
  let ?os = "js_max (Fin 0)
             (js_floor (js_mul (js_mul (js_mul (startBarA p) (Fin 4)) (Fin (60 / bpmA))) (Fin sr)))"
  show ?thesis
  proof (cases ?os)
    case (Fin x)
    then show ?thesis using assms
      by (auto simp: merge_lengths_def Let_def split: if_splits) linarith
  next
    case PInf
    then show ?thesis using assms by (auto simp: merge_lengths_def Let_def split: if_splits)
  next
    case NInf
    then show ?thesis using assms by (auto simp: merge_lengths_def Let_def split: if_splits)
  next
    case NaN
    then show ?thesis using assms by (auto simp: merge_lengths_def Let_def split: if_splits)
  qed
qed

text \<open>
  C4 (as amended). The plan \<open>p\<close> the renderer uses is the planner's plan \<open>p0\<close> with the
  fields of the override written over it, and with \<open>startBarA\<close> set as follows: without a
  \<open>startBarA\<close> in the override it is the planner's value, \<open>floor (0.75 * bars)\<close> for
  \<open>bars = max 1 (floor (downbeats / 4))\<close>, which lies in [0, bars); with a \<open>startBarA\<close> in
  the override it is 0 when that value is negative and that value itself otherwise, be it
  beyond the bars of A, \<open>+Infinity\<close> or NaN. So the \<open>startBarA\<close> used is never negative, and
  it is not bounded above by the bars of A. The bound the renderer enforces is on samples:
  the overlap start it computes from the plan is at most the length of A.
\<close>

theorem merge_plan_startBarA:
  assumes "merge_plan a b mode ov = Inr p"
  shows "(case createTransitionPlan a b mode of
            Inl e \<Rightarrow> False
          | Inr p0 \<Rightarrow>
              startBarA p0 = Fin (of_int \<lfloor>real (totalBarsA_of a) * 0.75\<rfloor>) \<and>
              p = (case ov of None \<Rightarrow> p0 | Some v \<Rightarrow> apply_override p0 v)
                    \<lparr>startBarA :=
                       (case (case ov of None \<Rightarrow> None | Some v \<Rightarrow> o_startBarA v) of
                          None \<Rightarrow> startBarA p0
                        | Some x \<Rightarrow> if js_less x (Fin 0) then Fin 0 else x)\<rparr>) \<and>
         0 \<le> \<lfloor>real (totalBarsA_of a) * 0.75\<rfloor> \<and>
         \<lfloor>real (totalBarsA_of a) * 0.75\<rfloor> < int (totalBarsA_of a) \<and>
         \<not> js_less (startBarA p) (Fin 0) \<and>
         (\<forall>mo tlen. merge_lengths p bpmA sr lenA lenB = Inr (mo, tlen) \<longrightarrow> mo \<le> lenA)"
proof -
  from assms obtain p0 where p0: "createTransitionPlan a b mode = Inr p0"
    by (auto simp: merge_plan_def split: if_splits sum.splits)
  let ?p1 = "case ov of None \<Rightarrow> p0 | Some v \<Rightarrow> apply_override p0 v"
  have p: "p = (if js_less (startBarA ?p1) (Fin 0) then ?p1\<lparr>startBarA := Fin 0\<rparr> else ?p1)"
    using assms p0 by (auto simp: merge_plan_def Let_def split: if_splits)
  have fl: "0 \<le> \<lfloor>real (totalBarsA_of a) * 0.75\<rfloor>"
      "\<lfloor>real (totalBarsA_of a) * 0.75\<rfloor> < int (totalBarsA_of a)"
    using floor_three_quarters[OF totalBarsA_of_pos[of a]] by simp_all
  have sb0: "startBarA p0 = Fin (of_int \<lfloor>real (totalBarsA_of a) * 0.75\<rfloor>)"
    by (rule createTransitionPlan_startBarA[OF p0])
  have nn0: "\<not> js_less (startBarA p0) (Fin 0)"
    using fl(1) by (simp add: sb0)
  have 1: "\<not> js_less (startBarA p) (Fin 0)" by (simp add: p)
  have 2: "p = ?p1\<lparr>startBarA :=
                       (case (case ov of None \<Rightarrow> None | Some v \<Rightarrow> o_startBarA v) of
                          None \<Rightarrow> startBarA p0
                        | Some x \<Rightarrow> if js_less x (Fin 0) then Fin 0 else x)\<rparr>"
  proof (cases ov)
    case None
    then show ?thesis using nn0 by (simp add: p)
  next
    case (Some v)
    show ?thesis
    proof (cases "o_startBarA v")
      case None
      then show ?thesis using nn0 Some by (simp add: p apply_override_def)
    next
      case (Some x)
      then show ?thesis using \<open>ov = Some v\<close> by (simp add: p apply_override_def)
    qed
  qed
  have 3: "\<forall>mo tlen. merge_lengths p bpmA sr lenA lenB = Inr (mo, tlen) \<longrightarrow> mo \<le> lenA"
    using merge_lengths_overlap by blast
  show ?thesis
    unfolding p0 sum.case using sb0 2 fl 1 3 by blast
qed

text \<open>
  The default summary for both tracks (one bar of A): the planner gives \<open>vocal_aware\<close>
  starting at bar 0. Without an override the plan is used as it is; an override of bar -3
  is reset to 0; an override of bar 1000 is kept, and on two seconds of audio at 48 kHz the
  overlap then starts at sample 96000, the length of A.
\<close>

theorem merge_plan_startBarA_witness:
  "merge_plan fallback_summary fallback_summary neutral None =
     Inr \<lparr>style = vocal_aware, startBarA = Fin 0, startBarB = Fin 0, lengthBars = 4,
          tempoOps = [], pitchOps = [], fx = []\<rparr> \<and>
   merge_plan fallback_summary fallback_summary neutral (Some (startBar_override (Fin (- 3)))) =
     Inr \<lparr>style = vocal_aware, startBarA = Fin 0, startBarB = Fin 0, lengthBars = 4,
          tempoOps = [], pitchOps = [], fx = []\<rparr> \<and>
   merge_plan fallback_summary fallback_summary neutral (Some (startBar_override (Fin 1000))) =
     Inr \<lparr>style = vocal_aware, startBarA = Fin 1000, startBarB = Fin 0, lengthBars = 4,
          tempoOps = [], pitchOps = [], fx = []\<rparr> \<and>
   createTransitionPlan fallback_summary fallback_summary neutral =
     Inr \<lparr>style = vocal_aware, startBarA = Fin 0, startBarB = Fin 0, lengthBars = 4,
          tempoOps = [], pitchOps = [], fx = []\<rparr> \<and>
   totalBarsA_of fallback_summary = 1 \<and>
   merge_lengths \<lparr>style = vocal_aware, startBarA = Fin 1000, startBarB = Fin 0, lengthBars = 4,
          tempoOps = [], pitchOps = [], fx = []\<rparr> 120 48000 96000 96000 = Inr (96000, 192000)"
proof -
  let ?p0 = "\<lparr>style = vocal_aware, startBarA = Fin 0, startBarB = Fin 0, lengthBars = 4,
          tempoOps = [], pitchOps = [], fx = []\<rparr>"
  have c: "createTransitionPlan fallback_summary fallback_summary neutral = Inr ?p0"
    by (simp add: createTransitionPlan_def fallback_summary_def
        areKeysCompatible_def CAMELOT_WHEEL_def bothVocal_def avgVocal_def tempoDelta_def
        js_greater_def energyA_of_def energyB_of_def totalBarsA_of_def Let_def float32_0_3_def)
  have b: "\<not> (bpm fallback_summary \<le> 0)" by (simp add: fallback_summary_def)
  have h1: "merge_plan fallback_summary fallback_summary neutral None = Inr ?p0"
    using b by (simp add: merge_plan_def c)
  have h2: "merge_plan fallback_summary fallback_summary neutral
              (Some (startBar_override (Fin (- 3)))) = Inr ?p0"
    using b by (simp add: merge_plan_def c apply_override_def startBar_override_def)
  have h3: "merge_plan fallback_summary fallback_summary neutral
              (Some (startBar_override (Fin 1000))) = Inr (?p0\<lparr>startBarA := Fin 1000\<rparr>)"
    using b by (simp add: merge_plan_def c apply_override_def startBar_override_def)
  have t: "totalBarsA_of fallback_summary = 1"
    by (simp add: totalBarsA_of_def fallback_summary_def)
  have m: "merge_lengths (?p0\<lparr>startBarA := Fin 1000\<rparr>) 120 48000 96000 96000
             = Inr (96000, 192000)"
    by (simp add: merge_lengths_def Let_def)
  show ?thesis
    using merge_plan_startBarA[OF h1, of 120 48000 96000 96000]
      merge_plan_startBarA[OF h2, of 120 48000 96000 96000]
      merge_plan_startBarA[OF h3, of 120 48000 96000 96000]
      h1 h2 h3 c t m
    by simp
qed

text \<open>
  C4 as stated fails: track A has one bar, the override asks for bar 1000, and the plan the
  renderer uses keeps \<open>startBarA = 1000\<close>.
\<close>

theorem merge_plan_override_counterexample:
  "map_sum id startBarA
     (merge_plan fallback_summary fallback_summary neutral
        (Some \<lparr>o_style = None, o_startBarA = Some (Fin 1000), o_startBarB = None,
               o_lengthBars = None, o_tempoOps = None, o_pitchOps = None, o_fx = None\<rparr>))
     = Inr (Fin 1000) \<and>
   totalBarsA_of fallback_summary = 1 \<and>
   \<not> js_less (Fin 1000) (Fin (real (totalBarsA_of fallback_summary)))"
  by (simp add: merge_plan_def createTransitionPlan_def fallback_summary_def
        areKeysCompatible_def CAMELOT_WHEEL_def bothVocal_def avgVocal_def tempoDelta_def
        js_greater_def energyA_of_def energyB_of_def totalBarsA_of_def Let_def apply_override_def
        float32_0_3_def)

section \<open>Theorems: FX processor\<close>

lemma applyNoiseSweep_reject:
  "js_less t (Fin 0) \<or> js_le d (Fin 0) \<or> \<not> isFinite t \<or> \<not> isFinite d \<Longrightarrow>
   applyNoiseSweep maxLen rng buffer t d = Inr (buffer, rng)"
  unfolding applyNoiseSweep_def by (rule if_P)

lemma applyReverseReverb_reject:
  "js_less t (Fin 0) \<or> js_le d (Fin 0) \<or> \<not> isFinite t \<or> \<not> isFinite d \<Longrightarrow>
   applyReverseReverb maxLen buffer t d = Inr buffer"
  unfolding applyReverseReverb_def by (rule if_P)

lemma applyTapeStop_reject:
  "js_less t (Fin 0) \<or> js_le d (Fin 0) \<or> \<not> isFinite t \<or> \<not> isFinite d \<Longrightarrow>
   applyTapeStop buffer t d = buffer"
  unfolding applyTapeStop_def by (rule if_P)

lemma applyStutter_reject:
  "js_less t (Fin 0) \<or> js_le division (Fin 0) \<or> js_le bars (Fin 0) \<or> js_le bpm0 (Fin 0) \<or>
      \<not> isFinite t \<or> \<not> isFinite bpm0 \<Longrightarrow>
   applyStutter buffer t division bars bpm0 = Some buffer"
  unfolding applyStutter_def by (rule if_P)

text \<open>
  The four effects that have a guard: noise sweep, reverse reverb and tape stop return
  their input buffer when the start time is negative or not finite or the duration is not
  positive or not finite; stutter returns its input buffer when the start time is negative
  or not finite, when the division or the number of bars is not positive, or when the bpm
  is not positive or not finite.
\<close>

lemma fx_guards:
  "(js_less t (Fin 0) \<or> js_le d (Fin 0) \<or> \<not> isFinite t \<or> \<not> isFinite d \<longrightarrow>
      applyNoiseSweep maxLen rng buffer t d = Inr (buffer, rng) \<and>
      applyReverseReverb maxLen buffer t d = Inr buffer \<and>
      applyTapeStop buffer t d = buffer) \<and>
   (js_less t (Fin 0) \<or> js_le division (Fin 0) \<or> js_le bars (Fin 0) \<or> js_le bpm0 (Fin 0) \<or>
      \<not> isFinite t \<or> \<not> isFinite bpm0 \<longrightarrow>
      applyStutter buffer t division bars bpm0 = Some buffer)"
  using applyNoiseSweep_reject[of t d maxLen rng buffer]
    applyReverseReverb_reject[of t d maxLen buffer] applyTapeStop_reject[of t d buffer]
    applyStutter_reject[of t division bars bpm0 buffer]
  by blast

text \<open>
  C3. EQ morph is the one effect without a guard: it tests none of its parameters and never
  returns its inputs as they are. With an overlap start that is NaN, negative (2.5
  samples before 0) or \<open>+Infinity\<close> and a duration of 2.5 samples at 48 kHz it leaves track
  A as it is and still fades in track B, scaling its first two samples by 0.3 and by 0.65.
  The four other effects return their input for such a start time (\<open>fx_guards\<close>).
\<close>

theorem applyEQMorph_unguarded:
  "map_option (\<lambda>r. (channelData (fst r), channelData (snd r)))
     (applyEQMorph \<lparr>sampleRate = 48000, channelData = [[Fin 1, Fin 1]]\<rparr>
        \<lparr>sampleRate = 48000, channelData = [[Fin 1, Fin 1]]\<rparr> NaN (Fin (1 / 19200)))
     = Some ([[Fin 1, Fin 1]], [[Fin (3 / 10), Fin (13 / 20)]]) \<and>
   map_option (\<lambda>r. (channelData (fst r), channelData (snd r)))
     (applyEQMorph \<lparr>sampleRate = 48000, channelData = [[Fin 1, Fin 1]]\<rparr>
        \<lparr>sampleRate = 48000, channelData = [[Fin 1, Fin 1]]\<rparr> (Fin (- 1 / 19200)) (Fin (1 / 19200)))
     = Some ([[Fin 1, Fin 1]], [[Fin (3 / 10), Fin (13 / 20)]]) \<and>
   map_option (\<lambda>r. (channelData (fst r), channelData (snd r)))
     (applyEQMorph \<lparr>sampleRate = 48000, channelData = [[Fin 1, Fin 1]]\<rparr>
        \<lparr>sampleRate = 48000, channelData = [[Fin 1, Fin 1]]\<rparr> PInf (Fin (1 / 19200)))
     = Some ([[Fin 1, Fin 1]], [[Fin (3 / 10), Fin (13 / 20)]])"
  by (simp add: applyEQMorph_def Let_def loop_count_def morphA_channel_def morphB_channel_def
      inf_of_sign_def eval_nat_numeral)

text \<open>Tape stop on the same buffer, start and duration returns its input.\<close>

lemma applyTapeStop_nan_start:
  "applyTapeStop \<lparr>sampleRate = 48000, channelData = [[Fin 1, Fin 1]]\<rparr> NaN (Fin (1 / 19200))
     = \<lparr>sampleRate = 48000, channelData = [[Fin 1, Fin 1]]\<rparr>"
  by (simp add: applyTapeStop_def)

text \<open>
  The guard of stutter tests \<open>isFinite\<close> on the start time and the bpm only: with a
  division that is NaN no slice is copied, and the stutter span (here 4.5 samples at
  48 kHz and 120 bpm) comes back as zeros.
\<close>

lemma applyStutter_nan_division:
  "applyStutter \<lparr>sampleRate = 48000, channelData = [[Fin 1, Fin 1, Fin 1, Fin 1]]\<rparr>
     (Fin 0) NaN (Fin (3 / 64000)) (Fin 120)
   = Some \<lparr>sampleRate = 48000, channelData = [[Fin 0, Fin 0, Fin 0, Fin 0]]\<rparr>"
  by (simp add: applyStutter_def Let_def stutter_channel_def loop_count_def pos_in_slice_def
      buffer_length_def eval_nat_numeral)

section \<open>Theorems: the random source of the noise sweep\<close>


















section \<open>Theorems: WAV emission\<close>

lemma length_set16_le [simp]: "length (set16_le off w view) = length view"
  by (simp add: set16_le_def)

lemma length_set32_le [simp]: "length (set32_le off w view) = length view"
  by (simp add: set32_le_def)

lemma length_writeString [simp]: "length (writeString off str view) = length view"
proof -
  have "length (foldl (\<lambda>v i. setUint8 (off + i) (of_char (str ! i)) v) view is) = length view" for "is"
    by (induction "is" arbitrary: view) (simp_all add: setUint8_def)
  then show ?thesis by (simp add: writeString_def)
qed

lemma length_wav_header [simp]: "length (wav_header n sr len view) = length view"
  by (simp add: wav_header_def Let_def)












end
